theory Spec2Isabelle
  imports Complex_Main
begin

section \<open>Model-reference adaptive controller: numeric model\<close>

text \<open>
  The controller of \<^verbatim>\<open>mrac_controller.py\<close> computes with numpy arrays of 64-bit floats.
  Here every float is a real number: arithmetic is exact and there is no NaN and no
  infinity (a division by zero, which numpy answers with nan or inf and a warning, has
  HOL's value \<open>x / 0 = 0\<close>). Arrays of a fixed shape are tuples; the arrays whose length is
  the number of thrusters are lists, and a matrix with one column per thruster is the
  list of its rows.
\<close>

type_synonym vec2 = "real \<times> real"
type_synonym vec3 = "real \<times> real \<times> real"
type_synonym vec5 = "real \<times> real \<times> real \<times> real \<times> real"
type_synonym quat = "real \<times> real \<times> real \<times> real"
type_synonym mat3 = "vec3 \<times> vec3 \<times> vec3"
type_synonym vec = "real list"
type_synonym mat = "real list list"

datatype error = ValueError

subsection \<open>Arrays whose size is the number of thrusters\<close>

text \<open>
  \<^verbatim>\<open>a.dot(b)\<close> for two vectors and for a matrix and a vector. numpy refuses operands
  whose shapes do not agree; here the sum stops at the shorter list. With the shapes the
  controller builds (\<open>B\<close> with one column per thruster, its pseudoinverse with one row per
  thruster) they agree.
\<close>

definition dot :: "vec \<Rightarrow> vec \<Rightarrow> real" where
  "dot xs ys = sum_list (map2 (*) xs ys)"

definition mat_vec :: "mat \<Rightarrow> vec \<Rightarrow> vec" where
  "mat_vec M v = map (\<lambda>row. dot row v) M"

text \<open>\<^verbatim>\<open>np.max(np.abs(command))\<close>; numpy raises ValueError on an empty array.\<close>

definition max_abs :: "vec \<Rightarrow> error + real" where
  "max_abs xs = (if xs = [] then Inl ValueError else Inr (Max (set (map abs xs))))"

subsection \<open>thruster\_mapper\<close>

text \<open>
  \<^verbatim>\<open>npl.pinv\<close> is numpy's Moore-Penrose pseudoinverse, computed there from a singular
  value decomposition. It is a parameter \<open>pinv\<close> of the model; what a theorem needs of it
  is a hypothesis of that theorem. \<open>thrust_max\<close> is the field \<^verbatim>\<open>self.thrust_max\<close>.
\<close>

definition thruster_mapper :: "real \<Rightarrow> (mat \<Rightarrow> mat) \<Rightarrow> vec \<Rightarrow> mat \<Rightarrow> error + vec" where
  "thruster_mapper thrust_max pinv wrench B =
     (let command = mat_vec (pinv B) wrench in
      case max_abs command of
        Inl e \<Rightarrow> Inl e
      | Inr command_max \<Rightarrow>
          if command_max > thrust_max
          then Inr (map (\<lambda>c. (thrust_max / command_max) * c) command)
          else Inr command)"

subsection \<open>thruster\_mapper on floats with infinities and NaN\<close>













subsection \<open>Arrays of fixed shape\<close>

fun add2 :: "vec2 \<Rightarrow> vec2 \<Rightarrow> vec2" where
  "add2 (a, b) (c, d) = (a + c, b + d)"

fun sub2 :: "vec2 \<Rightarrow> vec2 \<Rightarrow> vec2" where
  "sub2 (a, b) (c, d) = (a - c, b - d)"

fun scale2 :: "vec2 \<Rightarrow> real \<Rightarrow> vec2" where
  "scale2 (a, b) k = (a * k, b * k)"

text \<open>\<^verbatim>\<open>npl.norm\<close> of a vector of two entries.\<close>

fun norm2 :: "vec2 \<Rightarrow> real" where
  "norm2 (a, b) = sqrt (a * a + b * b)"

fun add3 :: "vec3 \<Rightarrow> vec3 \<Rightarrow> vec3" where
  "add3 (a, b, c) (d, e, f) = (a + d, b + e, c + f)"

fun mul3 :: "vec3 \<Rightarrow> vec3 \<Rightarrow> vec3" where
  "mul3 (a, b, c) (d, e, f) = (a * d, b * e, c * f)"

fun scale3 :: "vec3 \<Rightarrow> real \<Rightarrow> vec3" where
  "scale3 (a, b, c) k = (a * k, b * k, c * k)"

fun abs3 :: "vec3 \<Rightarrow> vec3" where
  "abs3 (a, b, c) = (\<bar>a\<bar>, \<bar>b\<bar>, \<bar>c\<bar>)"

fun dot3 :: "vec3 \<Rightarrow> vec3 \<Rightarrow> real" where
  "dot3 (a, b, c) (d, e, f) = a * d + b * e + c * f"

text \<open>\<^verbatim>\<open>np.cross\<close> of two vectors of three entries.\<close>

fun cross3 :: "vec3 \<Rightarrow> vec3 \<Rightarrow> vec3" where
  "cross3 (a, b, c) (d, e, f) = (b * f - c * e, c * d - a * f, a * e - b * d)"

fun x3 :: "vec3 \<Rightarrow> real" where "x3 (a, b, c) = a"
fun y3 :: "vec3 \<Rightarrow> real" where "y3 (a, b, c) = b"
fun z3 :: "vec3 \<Rightarrow> real" where "z3 (a, b, c) = c"

fun add5 :: "vec5 \<Rightarrow> vec5 \<Rightarrow> vec5" where
  "add5 (a, b, c, d, e) (a', b', c', d', e') = (a + a', b + b', c + c', d + d', e + e')"

fun mul5 :: "vec5 \<Rightarrow> vec5 \<Rightarrow> vec5" where
  "mul5 (a, b, c, d, e) (a', b', c', d', e') = (a * a', b * b', c * c', d * d', e * e')"

fun scale5 :: "vec5 \<Rightarrow> real \<Rightarrow> vec5" where
  "scale5 (a, b, c, d, e) k = (a * k, b * k, c * k, d * k, e * k)"

fun dot5 :: "vec5 \<Rightarrow> vec5 \<Rightarrow> real" where
  "dot5 (a, b, c, d, e) (a', b', c', d', e') = a * a' + b * b' + c * c' + d * d' + e * e'"

text \<open>A 3x3 matrix is the triple of its rows; \<open>mat3_vec R v\<close> is \<^verbatim>\<open>R.dot(v)\<close>.\<close>

fun mat3_vec :: "mat3 \<Rightarrow> vec3 \<Rightarrow> vec3" where
  "mat3_vec (r0, r1, r2) v = (dot3 r0 v, dot3 r1 v, dot3 r2 v)"

fun transpose3 :: "mat3 \<Rightarrow> mat3" where
  "transpose3 ((a, b, c), (d, e, f), (g, h, i)) = ((a, d, g), (b, e, h), (c, f, i))"

fun mat3_mul :: "mat3 \<Rightarrow> mat3 \<Rightarrow> mat3" where
  "mat3_mul (r0, r1, r2) M =
     (case transpose3 M of (c0, c1, c2) \<Rightarrow>
        ((dot3 r0 c0, dot3 r0 c1, dot3 r0 c2),
         (dot3 r1 c0, dot3 r1 c1, dot3 r1 c2),
         (dot3 r2 c0, dot3 r2 c1, dot3 r2 c2)))"

text \<open>\<^verbatim>\<open>np.diag([a, b, c])\<close>.\<close>

definition diag3 :: "real \<Rightarrow> real \<Rightarrow> real \<Rightarrow> mat3" where
  "diag3 a b c = ((a, 0, 0), (0, b, 0), (0, 0, c))"

definition identity3 :: mat3 where
  "identity3 = ((1, 0, 0), (0, 1, 0), (0, 0, 1))"

text \<open>\<^verbatim>\<open>np.clip(x, lo, hi)\<close>.\<close>

definition clip :: "real \<Rightarrow> real \<Rightarrow> real \<Rightarrow> real" where
  "clip x lo hi = min (max x lo) hi"

text \<open>\<^verbatim>\<open>np.deg2rad\<close>.\<close>

definition deg2rad :: "real \<Rightarrow> real" where
  "deg2rad d = d * pi / 180"

text \<open>
  \<^verbatim>\<open>math.atan2(y, x)\<close>, the angle in \<open>(-\<pi>, \<pi>]\<close> of the point \<open>(x, y)\<close>; the reals have
  no negative zero. \<^verbatim>\<open>np.angle(x + 1j * y)\<close> is \<open>atan2 y x\<close>.
\<close>

definition atan2 :: "real \<Rightarrow> real \<Rightarrow> real" where
  "atan2 y x =
     (if 0 < x then arctan (y / x)
      else if x < 0 then (if 0 \<le> y then arctan (y / x) + pi else arctan (y / x) - pi)
      else if 0 < y then pi / 2
      else if y < 0 then - (pi / 2)
      else 0)"

subsection \<open>Quaternions: the functions of tf.transformations the controller calls\<close>

text \<open>
  The controller imports \<^verbatim>\<open>tf.transformations\<close> (ROS) as \<^verbatim>\<open>trns\<close>. Its functions are
  written out here as that module defines them, for the default axis sequence
  \<^verbatim>\<open>'sxyz'\<close>, with a quaternion held as \<open>(x, y, z, w)\<close>. \<open>EPS\<close> is the module's
  \<^verbatim>\<open>_EPS = numpy.finfo(float).eps * 4.0\<close>.
\<close>

definition EPS :: real where
  "EPS = 4 / 2 ^ 52"

text \<open>
  \<^verbatim>\<open>quaternion_matrix(q)[:3, :3]\<close>: the controller only ever reads the upper left 3x3
  block of the homogeneous matrix.
\<close>

fun quaternion_matrix :: "quat \<Rightarrow> mat3" where
  "quaternion_matrix (x, y, z, w) =
     (let nq = x * x + y * y + z * z + w * w in
      if nq < EPS then identity3
      else
        let s = sqrt (2 / nq);
            qx = x * s; qy = y * s; qz = z * s; qw = w * s
        in ((1 - qy * qy - qz * qz, qx * qy - qz * qw, qx * qz + qy * qw),
            (qx * qy + qz * qw, 1 - qx * qx - qz * qz, qy * qz - qx * qw),
            (qx * qz - qy * qw, qy * qz + qx * qw, 1 - qx * qx - qy * qy)))"

fun euler_from_matrix :: "mat3 \<Rightarrow> vec3" where
  "euler_from_matrix ((m00, m01, m02), (m10, m11, m12), (m20, m21, m22)) =
     (let cy = sqrt (m00 * m00 + m10 * m10) in
      if cy > EPS
      then (atan2 m21 m22, atan2 (- m20) cy, atan2 m10 m00)
      else (atan2 (- m12) m11, atan2 (- m20) cy, 0))"

definition euler_from_quaternion :: "quat \<Rightarrow> vec3" where
  "euler_from_quaternion q = euler_from_matrix (quaternion_matrix q)"

definition quaternion_from_euler :: "real \<Rightarrow> real \<Rightarrow> real \<Rightarrow> quat" where
  "quaternion_from_euler ai0 aj0 ak0 =
     (let ai = ai0 / 2; aj = aj0 / 2; ak = ak0 / 2;
          ci = cos ai; si = sin ai;
          cj = cos aj; sj = sin aj;
          ck = cos ak; sk = sin ak;
          cc = ci * ck; cs = ci * sk; sc = si * ck; ss = si * sk
      in (cj * sc - sj * cs, cj * ss + sj * cc, cj * cs - sj * sc, cj * cc + sj * ss))"

fun quaternion_multiply :: "quat \<Rightarrow> quat \<Rightarrow> quat" where
  "quaternion_multiply (x1, y1, z1, w1) (x0, y0, z0, w0) =
     (x1 * w0 + y1 * z0 - z1 * y0 + w1 * x0,
      - x1 * z0 + y1 * w0 + z1 * x0 + w1 * y0,
      x1 * y0 - y1 * x0 + z1 * w0 + w1 * z0,
      - x1 * x0 - y1 * y0 - z1 * z0 + w1 * w0)"

fun quaternion_conjugate :: "quat \<Rightarrow> quat" where
  "quaternion_conjugate (x, y, z, w) = (- x, - y, - z, w)"

fun quaternion_inverse :: "quat \<Rightarrow> quat" where
  "quaternion_inverse (x, y, z, w) =
     (let n = x * x + y * y + z * z + w * w in
      case quaternion_conjugate (x, y, z, w) of (cx, cy, cz, cw) \<Rightarrow> (cx / n, cy / n, cz / n, cw / n))"

fun quaternion_norm :: "quat \<Rightarrow> real" where
  "quaternion_norm (x, y, z, w) = sqrt (x * x + y * y + z * z + w * w)"

subsection \<open>Messages\<close>

text \<open>A ROS time stamp, and \<^verbatim>\<open>(t1 - t0).to_sec()\<close>.\<close>

record time =
  secs :: int
  nsecs :: int

definition to_sec_diff :: "time \<Rightarrow> time \<Rightarrow> real" where
  "to_sec_diff t1 t0 = real_of_int (secs t1 - secs t0) + real_of_int (nsecs t1 - nsecs t0) / 10 ^ 9"

text \<open>
  \<^verbatim>\<open>nav_msgs/Odometry\<close>, with the fields the controller reads: \<^verbatim>\<open>header.stamp\<close>,
  \<^verbatim>\<open>pose.pose.position\<close>, \<^verbatim>\<open>pose.pose.orientation\<close>, \<^verbatim>\<open>twist.twist.linear\<close> and
  \<^verbatim>\<open>twist.twist.angular\<close>. A \<^verbatim>\<open>geometry_msgs/Point\<close> is the triple \<open>(x, y, z)\<close>.
\<close>

record odometry =
  stamp :: time
  pose_position :: vec3
  pose_orientation :: quat
  twist_linear :: vec3
  twist_angular :: vec3

record wrench_stamped =
  ws_frame_id :: string
  ws_force_x :: real
  ws_force_y :: real
  ws_torque_z :: real

record pose_stamped =
  ps_frame_id :: string
  ps_stamp :: time
  ps_position :: vec3
  ps_orientation :: quat

record published =
  wrench_pub :: wrench_stamped
  pose_ref_pub :: pose_stamped

subsection \<open>The controller object\<close>

text \<open>Every attribute \<^verbatim>\<open>__init__\<close> sets on \<^verbatim>\<open>self\<close>, the subscribers and publishers apart.\<close>

record controller =
  kp_body :: mat3
  kd_body :: mat3
  ki :: vec3
  kg :: vec5
  dist_est :: vec3
  drag_est :: vec5
  vel_max_body :: vec3
  heading_threshold :: real
  only_PD :: bool
  mass_ref :: real
  inertia_ref :: real
  thrust_max :: real
  thruster_positions :: "vec3 list"
  thruster_directions :: "vec3 list"
  lever_arms :: "vec3 list"
  B_body :: mat
  Fx_max_body :: vec
  Fy_max_body :: vec
  Mz_max_body :: vec
  D_body :: vec3
  p_des :: vec2
  q_des :: quat
  traversal :: real
  p_ref :: vec2
  v_ref :: vec2
  q_ref :: quat
  w_ref :: real
  a_ref :: vec2
  aa_ref :: real
  timestep :: real
  position :: vec2
  orientation :: quat
  lin_vel :: vec2
  ang_vel :: real
  state :: odometry
  last_odom :: "odometry option"

text \<open>
  \<^verbatim>\<open>np.concatenate((M.dot(directions.T), M.dot(levers.T)))\<close>: the 6xN matrix with one
  column per thruster, as the list of its six rows.
\<close>

fun thruster_matrix :: "mat3 \<Rightarrow> vec3 list \<Rightarrow> vec3 list \<Rightarrow> mat" where
  "thruster_matrix (r0, r1, r2) directions levers =
     [map (dot3 r0) directions, map (dot3 r1) directions, map (dot3 r2) directions,
      map (dot3 r0) levers, map (dot3 r1) levers, map (dot3 r2) levers]"

definition init_positions :: "vec3 list" where
  "init_positions =
     [(- 19 / 10, 1, - 123 / 10000), (- 19 / 10, - 1, - 123 / 10000),
      (16 / 10, - 6 / 10, - 123 / 10000), (16 / 10, 6 / 10, - 123 / 10000)]"

definition init_directions :: "vec3 list" where
  "init_directions =
     [(7071 / 10000, 7071 / 10000, 0), (7071 / 10000, - 7071 / 10000, 0),
      (7071 / 10000, 7071 / 10000, 0), (7071 / 10000, - 7071 / 10000, 0)]"

definition empty_odometry :: odometry where
  "empty_odometry =
     \<lparr>stamp = \<lparr>secs = 0, nsecs = 0\<rparr>, pose_position = (0, 0, 0), pose_orientation = (0, 0, 0, 0),
      twist_linear = (0, 0, 0), twist_angular = (0, 0, 0)\<rparr>"

text \<open>\<^verbatim>\<open>MRAC_Controller.__init__\<close>: the state of a controller that has received nothing.\<close>

definition init :: controller where
  "init =
     (let levers = map2 cross3 init_positions init_directions;
          B = [map x3 init_directions, map y3 init_directions, map z3 init_directions,
               map x3 levers, map y3 levers, map z3 levers];
          Fx = mat_vec B (map (\<lambda>c. 220 * c) [1, 1, 1, 1]);
          Fy = mat_vec B (map (\<lambda>c. 220 * c) [1, - 1, 1, - 1]);
          Mz = mat_vec B (map (\<lambda>c. 220 * c) [- 1, 1, 1, - 1])
      in \<lparr>kp_body = diag3 600 700 700,
          kd_body = diag3 650 750 750,
          ki = (1 / 10, 1 / 10, 1 / 10),
          kg = (3, 3, 3, 3, 3),
          dist_est = (0, 0, 0),
          drag_est = (0, 0, 0, 0, 0),
          vel_max_body = (3 / 2, 1 / 2, 1 / 2),
          heading_threshold = 500,
          only_PD = True,
          mass_ref = 300,
          inertia_ref = 300,
          thrust_max = 220,
          thruster_positions = init_positions,
          thruster_directions = init_directions,
          lever_arms = levers,
          B_body = B,
          Fx_max_body = Fx,
          Fy_max_body = Fy,
          Mz_max_body = Mz,
          D_body = (\<bar>Fx ! 0\<bar> / (3 / 2) ^ 2, \<bar>Fy ! 1\<bar> / (1 / 2) ^ 2, \<bar>Mz ! 5\<bar> / (1 / 2) ^ 2),
          p_des = (0, 0),
          q_des = (1, 0, 0, 0),
          traversal = 0,
          p_ref = (0, 0),
          v_ref = (0, 0),
          q_ref = (0, 0, 0, 0),
          w_ref = 0,
          a_ref = (0, 0),
          aa_ref = 0,
          timestep = 2 / 100,
          position = (0, 0),
          orientation = (1, 0, 0, 0),
          lin_vel = (0, 0),
          ang_vel = 0,
          state = empty_odometry,
          last_odom = None\<rparr>)"

subsection \<open>set\_waypoint\<close>

text \<open>The message is a Point \<open>(x, y, z)\<close>: the position and the heading in degrees.\<close>

definition set_waypoint :: "vec3 \<Rightarrow> controller \<Rightarrow> controller \<times> pose_stamped" where
  "set_waypoint msg s =
     (let p = (x3 msg, y3 msg);
          q = quaternion_from_euler 0 0 (deg2rad (z3 msg))
      in (s\<lparr>p_des := p,
            q_des := q,
            traversal := norm2 (sub2 p (position s)),
            p_ref := position s,
            v_ref := lin_vel s,
            q_ref := orientation s,
            w_ref := ang_vel s,
            a_ref := (0, 0),
            aa_ref := 0\<rparr>,
          \<lparr>ps_frame_id = ''/enu'', ps_stamp = \<lparr>secs = 0, nsecs = 0\<rparr>,
           ps_position = (x3 msg, y3 msg, 0), ps_orientation = q\<rparr>))"

subsection \<open>increment\_reference\<close>

text \<open>The gain \<^verbatim>\<open>R.dot(K).dot(R.T)\<close>.\<close>

definition rotate_gain :: "mat3 \<Rightarrow> mat3 \<Rightarrow> mat3" where
  "rotate_gain R K = mat3_mul (mat3_mul R K) (transpose3 R)"

text \<open>\<^verbatim>\<open>q_err\<close> of the reference step, with its "smartyaw" branch.\<close>

definition ref_q_err :: "controller \<Rightarrow> quat" where
  "ref_q_err s =
     (let p_err = sub2 (p_des s) (p_ref s) in
      if norm2 p_err \<le> heading_threshold s
      then quaternion_multiply (q_des s) (quaternion_inverse (q_ref s))
      else
        let q_direct = quaternion_from_euler 0 0 (atan2 (snd p_err) (fst p_err))
        in quaternion_multiply q_direct (quaternion_inverse (q_ref s)))"

text \<open>\<^verbatim>\<open>wrench\<close> of the reference step: the PD law on desired minus reference.\<close>

definition ref_wrench :: "controller \<Rightarrow> vec3" where
  "ref_wrench s =
     (let R_ref = quaternion_matrix (q_ref s);
          kp = rotate_gain R_ref (kp_body s);
          kd = rotate_gain R_ref (kd_body s);
          p_err = sub2 (p_des s) (p_ref s);
          v_err = (- fst (v_ref s), - snd (v_ref s));
          w_err = - w_ref s;
          y_err = z3 (euler_from_quaternion (ref_q_err s));
          err = (fst p_err, snd p_err, y_err);
          errdot = (fst v_err, snd v_err, w_err)
      in add3 (mat3_vec kp err) (mat3_vec kd errdot))"

text \<open>
  \<^verbatim>\<open>B_3dof\<close> of the reference step: the rows force x, force y and torque z of the
  thruster matrix \<^verbatim>\<open>B\<close> in the frame of the reference orientation.
\<close>

definition B_3dof :: "controller \<Rightarrow> mat" where
  "B_3dof s =
     (let R_ref = quaternion_matrix (q_ref s);
          B = thruster_matrix R_ref (thruster_directions s) (lever_arms s)
      in [B ! 0, B ! 1, B ! 5])"

text \<open>\<^verbatim>\<open>drag_ref\<close>: the drag of the model on the virtual boat, in the world frame.\<close>

definition drag_ref :: "controller \<Rightarrow> vec3" where
  "drag_ref s =
     (let R_ref = quaternion_matrix (q_ref s);
          twist_body = mat3_vec (transpose3 R_ref) (fst (v_ref s), snd (v_ref s), w_ref s)
      in mat3_vec R_ref (mul3 (mul3 (D_body s) twist_body) (abs3 twist_body)))"

definition increment_reference :: "(mat \<Rightarrow> mat) \<Rightarrow> controller \<Rightarrow> error + controller" where
  "increment_reference pinv s =
     (let R_ref = quaternion_matrix (q_ref s);
          y_ref = z3 (euler_from_quaternion (q_ref s));
          wrench = ref_wrench s;
          B = thruster_matrix R_ref (thruster_directions s) (lever_arms s)
      in case thruster_mapper (thrust_max s) pinv [x3 wrench, y3 wrench, z3 wrench] (B_3dof s) of
           Inl e \<Rightarrow> Inl e
         | Inr command \<Rightarrow>
             let wrench_saturated = mat_vec B command;
                 a = ((wrench_saturated ! 0 - x3 (drag_ref s)) / mass_ref s,
                      (wrench_saturated ! 1 - y3 (drag_ref s)) / mass_ref s);
                 aa = (wrench_saturated ! 5 - z3 (drag_ref s)) / inertia_ref s
             in Inr (s\<lparr>a_ref := a,
                       aa_ref := aa,
                       p_ref := add2 (p_ref s) (scale2 (v_ref s) (timestep s)),
                       q_ref := quaternion_from_euler 0 0 (y_ref + w_ref s * timestep s),
                       v_ref := add2 (v_ref s) (scale2 a (timestep s)),
                       w_ref := w_ref s + aa * timestep s\<rparr>))"

subsection \<open>get\_command\<close>

text \<open>The time step: lines 213 to 217.\<close>

definition update_timestep :: "odometry \<Rightarrow> controller \<Rightarrow> controller" where
  "update_timestep msg s =
     (case last_odom s of
        None \<Rightarrow> s\<lparr>last_odom := Some msg\<rparr>
      | Some prev \<Rightarrow> s\<lparr>timestep := to_sec_diff (stamp msg) (stamp prev), last_odom := Some msg\<rparr>)"

text \<open>Reading the message in: lines 220 to 235.\<close>

definition unpack :: "odometry \<Rightarrow> controller \<Rightarrow> controller" where
  "unpack msg s =
     (let R = quaternion_matrix (pose_orientation msg)
      in s\<lparr>position := (x3 (pose_position msg), y3 (pose_position msg)),
           orientation := pose_orientation msg,
           lin_vel := (x3 (mat3_vec R (twist_linear msg)), y3 (mat3_vec R (twist_linear msg))),
           ang_vel := z3 (mat3_vec R (twist_angular msg))\<rparr>)"

text \<open>The error vectors \<^verbatim>\<open>err\<close> and \<^verbatim>\<open>errdot\<close>, reference minus true: lines 242 to 249.\<close>

definition err :: "controller \<Rightarrow> vec3" where
  "err s =
     (let p_err = sub2 (p_ref s) (position s);
          y_err = z3 (euler_from_quaternion
                        (quaternion_multiply (q_ref s) (quaternion_inverse (orientation s))))
      in (fst p_err, snd p_err, y_err))"

definition errdot :: "controller \<Rightarrow> vec3" where
  "errdot s =
     (let v_err = sub2 (v_ref s) (lin_vel s);
          w_err = w_ref s - ang_vel s
      in (fst v_err, snd v_err, w_err))"

text \<open>The 3x5 "learning" matrix, as the triple of its rows: lines 255 to 257.\<close>

definition drag_regressor :: "controller \<Rightarrow> vec5 \<times> vec5 \<times> vec5" where
  "drag_regressor s =
     (let y = z3 (euler_from_quaternion (orientation s));
          vx = fst (lin_vel s); vy = snd (lin_vel s); w = ang_vel s
      in ((vx * (cos y) ^ 2 + vy * sin y * cos y,
           vx / 2 - (vx * cos (2 * y)) / 2 - (vy * sin (2 * y)) / 2,
           - w * sin y,
           - w * cos y,
           0),
          (vy / 2 - (vy * cos (2 * y)) / 2 + (vx * sin (2 * y)) / 2,
           vy * (cos y) ^ 2 - vx * cos y * sin y,
           w * cos y,
           - w * sin y,
           0),
          (0,
           0,
           vy * cos y - vx * sin y,
           - vx * cos y - vy * sin y,
           w)))"

text \<open>\<^verbatim>\<open>M.dot(v)\<close> and \<^verbatim>\<open>M.T.dot(v)\<close> for a 3x5 matrix.\<close>

fun mat35_vec :: "vec5 \<times> vec5 \<times> vec5 \<Rightarrow> vec5 \<Rightarrow> vec3" where
  "mat35_vec (r0, r1, r2) v = (dot5 r0 v, dot5 r1 v, dot5 r2 v)"

fun mat35_T_vec :: "vec5 \<times> vec5 \<times> vec5 \<Rightarrow> vec3 \<Rightarrow> vec5" where
  "mat35_T_vec ((a0, a1, a2, a3, a4), (b0, b1, b2, b3, b4), (c0, c1, c2, c3, c4)) (u, v, w) =
     (a0 * u + b0 * v + c0 * w, a1 * u + b1 * v + c1 * w, a2 * u + b2 * v + c2 * w,
      a3 * u + b3 * v + c3 * w, a4 * u + b4 * v + c4 * w)"

text \<open>The world frame wrench: lines 238, 239 and 252 to 263.\<close>

definition wrench :: "controller \<Rightarrow> vec3" where
  "wrench s =
     (let R = quaternion_matrix (orientation s);
          kp = rotate_gain R (kp_body s);
          kd = rotate_gain R (kd_body s);
          inertial_feedforward =
            mul3 (fst (a_ref s), snd (a_ref s), aa_ref s) (mass_ref s, mass_ref s, inertia_ref s)
      in if only_PD s
         then add3 (mat3_vec kp (err s)) (mat3_vec kd (errdot s))
         else add3 (add3 (add3 (add3 (mat3_vec kp (err s)) (mat3_vec kd (errdot s)))
                               inertial_feedforward)
                         (dist_est s))
                   (mat35_vec (drag_regressor s) (drag_est s)))"

text \<open>The two estimator updates: lines 266 and 267.\<close>

definition update_estimates :: "controller \<Rightarrow> controller" where
  "update_estimates s =
     s\<lparr>dist_est := add3 (dist_est s) (scale3 (mul3 (ki s) (err s)) (timestep s)),
       drag_est := add5 (drag_est s)
                        (scale5 (mul5 (kg s) (mat35_T_vec (drag_regressor s) (add3 (err s) (errdot s))))
                                (timestep s))\<rparr>"

text \<open>The body frame wrench, its sign flips and the safety saturation: lines 271 to 277.\<close>

definition wrench_body :: "controller \<Rightarrow> vec3" where
  "wrench_body s =
     (let R = quaternion_matrix (orientation s);
          b = mat3_vec (transpose3 R) (wrench s)
      in (clip (x3 b) (- 600) 600, clip (- y3 b) (- 600) 600, clip (- z3 b) (- 600) 600))"

text \<open>
  \<^verbatim>\<open>get_command\<close>. The wrench is computed before the estimates and the reference model
  are stepped and published after; when the reference step raises, nothing is published
  and the attributes written so far keep their new values.
\<close>

definition get_command :: "(mat \<Rightarrow> mat) \<Rightarrow> odometry \<Rightarrow> controller \<Rightarrow> controller \<times> (error + published)" where
  "get_command pinv msg s =
     (let s1 = unpack msg (update_timestep msg s);
          w = wrench_body s1;
          s2 = update_estimates s1
      in case increment_reference pinv s2 of
           Inl e \<Rightarrow> (s2, Inl e)
         | Inr s3 \<Rightarrow>
             (s3, Inr \<lparr>wrench_pub = \<lparr>ws_frame_id = ''/base_link'', ws_force_x = x3 w,
                                     ws_force_y = y3 w, ws_torque_z = z3 w\<rparr>,
                       pose_ref_pub = \<lparr>ps_frame_id = ''/enu'', ps_stamp = stamp msg,
                                       ps_position = (fst (p_ref s3), snd (p_ref s3), 0),
                                       ps_orientation = q_ref s3\<rparr>\<rparr>))"

subsection \<open>Least squares and the pseudoinverse\<close>

text \<open>
  What numpy documents of \<^verbatim>\<open>pinv(B).dot(w)\<close>: it is a least-squares solution of
  \<open>B x = w\<close> (the one of least norm), that is, a solution of the normal equations
  \<open>B\<^sup>T (B x - w) = 0\<close>.
\<close>

definition least_squares :: "mat \<Rightarrow> vec \<Rightarrow> vec \<Rightarrow> bool" where
  "least_squares B w x \<longleftrightarrow>
     list_all (\<lambda>c. c = 0) (mat_vec (transpose B) (map2 (-) (mat_vec B x) w))"

text \<open>
  A matrix has full row rank when its rows are linearly independent: the only
  combination of the rows that vanishes in every column is the zero combination.
\<close>

definition full_row_rank :: "mat \<Rightarrow> bool" where
  "full_row_rank B \<longleftrightarrow>
     (\<forall>c. length c = length B \<and> list_all (\<lambda>e. e = 0) (mat_vec (transpose B) c)
          \<longrightarrow> list_all (\<lambda>e. e = 0) c)"

text \<open>
  For a matrix of three rows of full row rank the pseudoinverse has the closed form
  \<open>B\<^sup>T (B B\<^sup>T)\<^sup>-\<^sup>1\<close>. It stands for \<^verbatim>\<open>npl.pinv\<close> where a theorem below runs the
  controller on concrete values.
\<close>

fun det3 :: "mat3 \<Rightarrow> real" where
  "det3 ((a, b, c), (d, e, f), (g, h, i)) =
     a * (e * i - f * h) - b * (d * i - f * g) + c * (d * h - e * g)"

fun inverse3 :: "mat3 \<Rightarrow> mat3" where
  "inverse3 ((a, b, c), (d, e, f), (g, h, i)) =
     (let D = det3 ((a, b, c), (d, e, f), (g, h, i))
      in (((e * i - f * h) / D, (c * h - b * i) / D, (b * f - c * e) / D),
          ((f * g - d * i) / D, (a * i - c * g) / D, (c * d - a * f) / D),
          ((d * h - e * g) / D, (b * g - a * h) / D, (a * e - b * d) / D)))"

definition gram :: "vec \<Rightarrow> vec \<Rightarrow> vec \<Rightarrow> mat3" where
  "gram r0 r1 r2 =
     ((dot r0 r0, dot r0 r1, dot r0 r2),
      (dot r1 r0, dot r1 r1, dot r1 r2),
      (dot r2 r0, dot r2 r1, dot r2 r2))"

definition pinv_full_row_rank :: "mat \<Rightarrow> mat" where
  "pinv_full_row_rank B =
     (case B of
        [r0, r1, r2] \<Rightarrow>
          (case inverse3 (gram r0 r1 r2) of
             (g0, g1, g2) \<Rightarrow>
               map (\<lambda>(a, b, c). [dot3 (a, b, c) (x3 g0, x3 g1, x3 g2),
                                   dot3 (a, b, c) (y3 g0, y3 g1, y3 g2),
                                   dot3 (a, b, c) (z3 g0, z3 g1, z3 g2)])
                   (zip r0 (zip r1 r2)))
      | _ \<Rightarrow> [])"

text \<open>An odometry message: at \<open>(1, 2)\<close>, at rest, with the identity orientation.\<close>

definition odom_at_rest :: odometry where
  "odom_at_rest =
     \<lparr>stamp = \<lparr>secs = 1, nsecs = 0\<rparr>, pose_position = (1, 2, 0),
      pose_orientation = (0, 0, 0, 1), twist_linear = (0, 0, 0), twist_angular = (0, 0, 0)\<rparr>"

text \<open>
  A controller whose vehicle is at rest at the origin with the identity orientation, after
  a waypoint 1000 m to the east with the final heading 180 degrees.
\<close>

definition east_waypoint_state :: controller where
  "east_waypoint_state =
     init\<lparr>p_des := (1000, 0), q_des := quaternion_from_euler 0 0 (deg2rad 180),
          q_ref := (0, 0, 0, 1)\<rparr>"

section \<open>Thruster allocation\<close>

lemma max_abs_Inr: "xs \<noteq> [] \<Longrightarrow> max_abs xs = Inr (Max (set (map abs xs)))"
  by (simp add: max_abs_def)

lemma abs_le_Max: "c \<in> set xs \<Longrightarrow> \<bar>c\<bar> \<le> Max (set (map abs (xs::vec)))"
  by (rule Max_ge) auto

lemma Max_abs_nonneg: "xs \<noteq> [] \<Longrightarrow> 0 \<le> Max (set (map abs (xs::vec)))"
proof -
  assume "xs \<noteq> []"
  then obtain c where c: "c \<in> set xs" by (cases xs) auto
  have "0 \<le> \<bar>c\<bar>" by simp
  also have "\<dots> \<le> Max (set (map abs xs))" using c by (rule abs_le_Max)
  finally show ?thesis .
qed

lemma Max_abs_scale:
  assumes "xs \<noteq> []" and "0 \<le> k"
  shows "Max (set (map abs (map (\<lambda>c. k * c) xs))) = k * Max (set (map abs (xs::vec)))"
proof -
  have "set (map abs (map (\<lambda>c. k * c) xs)) = (\<lambda>a. k * a) ` set (map abs xs)"
    using assms(2) by (auto simp: abs_mult image_image)
  moreover have "Max ((\<lambda>a. k * a) ` set (map abs xs)) = k * Max (set (map abs xs))"
    using assms by (intro mono_Max_commute [symmetric]) (auto simp: mono_def mult_left_mono)
  ultimately show ?thesis by simp
qed

text \<open>
  Claim C2. With a per-thruster limit \<open>thrust_max \<ge> 0\<close> (the code sets 220), for every
  wrench and mapping matrix for which the solve gives a non-empty command (one entry per
  thruster), \<open>thruster_mapper\<close> returns a command whose every entry has absolute value at
  most \<open>thrust_max\<close>; and when the largest absolute entry of the unscaled solution exceeds
  \<open>thrust_max\<close>, the result is the solution multiplied by the non-negative factor
  \<open>thrust_max / max |command|\<close>, and its largest absolute entry is exactly \<open>thrust_max\<close>.
  With no thruster at all \<^verbatim>\<open>np.max\<close> raises and nothing is returned.
\<close>

theorem thruster_mapper_saturation:
  assumes "0 \<le> tmax" and "mat_vec (pinv B) w \<noteq> []"
  shows "\<exists>cmd. thruster_mapper tmax pinv w B = Inr cmd
           \<and> (\<forall>c \<in> set cmd. \<bar>c\<bar> \<le> tmax)
           \<and> (Max (set (map abs (mat_vec (pinv B) w))) > tmax \<longrightarrow>
                cmd = map (\<lambda>c. (tmax / Max (set (map abs (mat_vec (pinv B) w)))) * c)
                          (mat_vec (pinv B) w)
                \<and> 0 \<le> tmax / Max (set (map abs (mat_vec (pinv B) w)))
                \<and> Max (set (map abs cmd)) = tmax)
           \<and> (Max (set (map abs (mat_vec (pinv B) w))) \<le> tmax \<longrightarrow>
                cmd = mat_vec (pinv B) w)"
proof -
  define command where "command = mat_vec (pinv B) w"
  define m where "m = Max (set (map abs command))"
  have ne: "command \<noteq> []" using assms(2) by (simp add: command_def)
  have m0: "0 \<le> m" unfolding m_def using ne by (rule Max_abs_nonneg)
  have mx_eq: "max_abs command = Inr m" unfolding m_def using ne by (rule max_abs_Inr)
  show ?thesis
  proof (cases "m > tmax")
    case True
    then have mpos: "0 < m" using assms(1) by simp
    define k where "k = tmax / m"
    have k0: "0 \<le> k" unfolding k_def using assms(1) mpos by simp
    have res: "thruster_mapper tmax pinv w B = Inr (map (\<lambda>c. k * c) command)"
      unfolding thruster_mapper_def Let_def command_def [symmetric] mx_eq k_def
      using True by simp
    have mx: "Max (set (map abs (map (\<lambda>c. k * c) command))) = tmax"
      unfolding Max_abs_scale [OF ne k0] m_def [symmetric] using mpos by (simp add: k_def)
    have bound: "\<forall>c \<in> set (map (\<lambda>c. k * c) command). \<bar>c\<bar> \<le> tmax"
    proof
      fix c assume "c \<in> set (map (\<lambda>c. k * c) command)"
      then have "\<bar>c\<bar> \<le> Max (set (map abs (map (\<lambda>c. k * c) command)))" by (rule abs_le_Max)
      then show "\<bar>c\<bar> \<le> tmax" using mx by simp
    qed
    show ?thesis
      unfolding command_def [symmetric] m_def [symmetric] k_def [symmetric]
      using res mx bound k0 True by (intro exI [of _ "map (\<lambda>c. k * c) command"]) simp
  next
    case False
    have res: "thruster_mapper tmax pinv w B = Inr command"
      unfolding thruster_mapper_def Let_def command_def [symmetric] mx_eq
      using False by simp
    have bound: "\<forall>c \<in> set command. \<bar>c\<bar> \<le> tmax"
    proof
      fix c assume "c \<in> set command"
      then have "\<bar>c\<bar> \<le> m" unfolding m_def by (rule abs_le_Max)
      then show "\<bar>c\<bar> \<le> tmax" using False by simp
    qed
    show ?thesis
      unfolding command_def [symmetric] m_def [symmetric]
      using res bound False by (intro exI [of _ command]) simp
  qed
qed

theorem thruster_mapper_saturation_witness:
  "\<exists>cmd. thruster_mapper 220 (\<lambda>B. [[1, 0, 0], [0, 2, 0]]) [440, 110, 0] [[1, 0], [0, 1 / 2], [0, 0]]
           = Inr cmd
         \<and> (\<forall>c \<in> set cmd. \<bar>c\<bar> \<le> 220) \<and> cmd = [220, 110] \<and> Max (set (map abs cmd)) = 220"
  using thruster_mapper_saturation [of 220 "\<lambda>B. [[1, 0, 0], [0, 2, 0]]"
      "[[1, 0], [0, 1 / 2], [0, 0]]" "[440, 110, 0]"]
  by (simp add: mat_vec_def dot_def)

section \<open>What a tick reads and writes\<close>

lemma increment_reference_keeps:
  assumes "increment_reference pinv s = Inr s'"
  shows "dist_est s' = dist_est s" and "drag_est s' = drag_est s" and "timestep s' = timestep s"
    and "last_odom s' = last_odom s" and "ki s' = ki s" and "kg s' = kg s"
    and "only_PD s' = only_PD s"
    and "p_ref s' = add2 (p_ref s) (scale2 (v_ref s) (timestep s))"
    and "q_ref s' = quaternion_from_euler 0 0
           (z3 (euler_from_quaternion (q_ref s)) + w_ref s * timestep s)"
  using assms
  by (auto simp: increment_reference_def Let_def split: sum.splits)

lemma read_in_fields:
  "timestep (unpack msg (update_timestep msg s)) =
     (case last_odom s of None \<Rightarrow> timestep s | Some prev \<Rightarrow> to_sec_diff (stamp msg) (stamp prev))"
  "position (unpack msg (update_timestep msg s)) = (x3 (pose_position msg), y3 (pose_position msg))"
  "orientation (unpack msg (update_timestep msg s)) = pose_orientation msg"
  "p_ref (unpack msg (update_timestep msg s)) = p_ref s"
  "q_ref (unpack msg (update_timestep msg s)) = q_ref s"
  "v_ref (unpack msg (update_timestep msg s)) = v_ref s"
  "w_ref (unpack msg (update_timestep msg s)) = w_ref s"
  "dist_est (unpack msg (update_timestep msg s)) = dist_est s"
  "drag_est (unpack msg (update_timestep msg s)) = drag_est s"
  "ki (unpack msg (update_timestep msg s)) = ki s"
  "kg (unpack msg (update_timestep msg s)) = kg s"
  by (simp_all add: unpack_def update_timestep_def Let_def split: option.splits)

lemma before_step_fields:
  "q_ref (update_estimates (unpack msg (update_timestep msg s))) = q_ref s"
  "thruster_directions (update_estimates (unpack msg (update_timestep msg s))) = thruster_directions s"
  "lever_arms (update_estimates (unpack msg (update_timestep msg s))) = lever_arms s"
  "p_ref (update_estimates (unpack msg (update_timestep msg s))) = p_ref s"
  "v_ref (update_estimates (unpack msg (update_timestep msg s))) = v_ref s"
  "w_ref (update_estimates (unpack msg (update_timestep msg s))) = w_ref s"
  "ki (update_estimates (unpack msg (update_timestep msg s))) = ki s"
  "kg (update_estimates (unpack msg (update_timestep msg s))) = kg s"
  "only_PD (update_estimates (unpack msg (update_timestep msg s))) = only_PD s"
  "last_odom (update_estimates (unpack msg (update_timestep msg s))) = Some msg"
  "timestep (update_estimates (unpack msg (update_timestep msg s))) =
     (case last_odom s of None \<Rightarrow> timestep s | Some prev \<Rightarrow> to_sec_diff (stamp msg) (stamp prev))"
  by (simp_all add: update_estimates_def unpack_def update_timestep_def Let_def split: option.splits)

lemma before_step_B_3dof:
  "B_3dof (update_estimates (unpack msg (update_timestep msg s))) = B_3dof s"
  by (simp add: B_3dof_def before_step_fields)

lemma get_command_cases:
  "(\<exists>e. get_command pinv msg s = (update_estimates (unpack msg (update_timestep msg s)), Inl e)
        \<and> increment_reference pinv (update_estimates (unpack msg (update_timestep msg s))) = Inl e)
   \<or> (\<exists>s3 out. get_command pinv msg s = (s3, Inr out)
        \<and> increment_reference pinv (update_estimates (unpack msg (update_timestep msg s))) = Inr s3
        \<and> wrench_pub out = \<lparr>ws_frame_id = ''/base_link'',
              ws_force_x = x3 (wrench_body (unpack msg (update_timestep msg s))),
              ws_force_y = y3 (wrench_body (unpack msg (update_timestep msg s))),
              ws_torque_z = z3 (wrench_body (unpack msg (update_timestep msg s)))\<rparr>)"
  by (cases "increment_reference pinv (update_estimates (unpack msg (update_timestep msg s)))")
     (simp_all add: get_command_def Let_def)

lemma get_command_dist_est:
  "dist_est (fst (get_command pinv msg s)) =
     add3 (dist_est s)
       (scale3 (mul3 (ki s)
                 (fst (p_ref s) - x3 (pose_position msg),
                  snd (p_ref s) - y3 (pose_position msg),
                  z3 (euler_from_quaternion
                        (quaternion_multiply (q_ref s) (quaternion_inverse (pose_orientation msg))))))
          (case last_odom s of None \<Rightarrow> timestep s | Some prev \<Rightarrow> to_sec_diff (stamp msg) (stamp prev)))"
proof -
  let ?s1 = "unpack msg (update_timestep msg s)"
  have e: "err ?s1 = (fst (p_ref s) - x3 (pose_position msg),
                  snd (p_ref s) - y3 (pose_position msg),
                  z3 (euler_from_quaternion
                        (quaternion_multiply (q_ref s) (quaternion_inverse (pose_orientation msg)))))"
    by (cases "p_ref s") (simp add: err_def read_in_fields Let_def)
  have d: "dist_est (update_estimates ?s1)
             = add3 (dist_est s) (scale3 (mul3 (ki s) (err ?s1)) (timestep ?s1))"
    by (simp add: update_estimates_def read_in_fields)
  have "dist_est (fst (get_command pinv msg s)) = dist_est (update_estimates ?s1)"
    using get_command_cases [of pinv msg s] by (auto simp: increment_reference_keeps)
  then show ?thesis unfolding d e read_in_fields .
qed



lemma thruster_mapper_returns:
  "pinv B \<noteq> [] \<Longrightarrow> \<exists>cmd. thruster_mapper tmax pinv w B = Inr cmd"
  by (simp add: thruster_mapper_def Let_def max_abs_def mat_vec_def)

lemma increment_reference_returns:
  assumes "pinv (B_3dof s) \<noteq> []"
  shows "\<exists>s'. increment_reference pinv s = Inr s'"
proof -
  obtain cmd where
    "thruster_mapper (thrust_max s) pinv
       [x3 (ref_wrench s), y3 (ref_wrench s), z3 (ref_wrench s)] (B_3dof s) = Inr cmd"
    using assms thruster_mapper_returns [of pinv "B_3dof s" "thrust_max s"] by blast
  then show ?thesis
    by (simp add: increment_reference_def Let_def)
qed

lemma get_command_publishes:
  assumes "pinv (B_3dof s) \<noteq> []"
  shows "\<exists>out. snd (get_command pinv msg s) = Inr out"
proof -
  let ?s2 = "update_estimates (unpack msg (update_timestep msg s))"
  have "\<exists>s'. increment_reference pinv ?s2 = Inr s'"
    using assms by (intro increment_reference_returns) (simp add: before_step_B_3dof)
  then show ?thesis
    using get_command_cases [of pinv msg s] by auto
qed

lemma EPS_bounds: "0 < EPS" "EPS < 1"
  by (simp_all add: EPS_def)

lemma init_solve_nonempty: "pinv_full_row_rank (B_3dof init) \<noteq> []"
  by (simp add: pinv_full_row_rank_def B_3dof_def init_def Let_def init_directions_def
                init_positions_def EPS_bounds identity3_def split: prod.splits)

section \<open>The adaptive estimator\<close>

text \<open>
  Claim C9. Every tick adds to the disturbance estimate the componentwise product of
  \<open>ki\<close> and the tracking error of that tick, times the time step of that tick. The
  tracking error is the reference position minus the position of the message, and the
  yaw of the reference orientation relative to the orientation of the message; the time
  step is the stored one on the first tick and the difference of the stamps after.
\<close>

theorem dist_est_integrates_error:
  "dist_est (fst (get_command pinv msg s)) =
     add3 (dist_est s)
       (scale3 (mul3 (ki s)
                 (fst (p_ref s) - x3 (pose_position msg),
                  snd (p_ref s) - y3 (pose_position msg),
                  z3 (euler_from_quaternion
                        (quaternion_multiply (q_ref s) (quaternion_inverse (pose_orientation msg))))))
          (case last_odom s of None \<Rightarrow> timestep s | Some prev \<Rightarrow> to_sec_diff (stamp msg) (stamp prev)))"
  by (rule get_command_dist_est)

theorem dist_est_integrates_error_witness:
  "dist_est (fst (get_command pinv_full_row_rank odom_at_rest init)) = (- 1 / 500, - 1 / 250, 0)"
  using dist_est_integrates_error [of pinv_full_row_rank odom_at_rest init] EPS_bounds
  by (simp add: init_def odom_at_rest_def Let_def euler_from_quaternion_def identity3_def atan2_def)

section \<open>The published wrench\<close>

lemma clip_bounds: "lo \<le> hi \<Longrightarrow> lo \<le> clip x lo hi \<and> clip x lo hi \<le> hi"
  by (simp add: clip_def min_def max_def)

lemma wrench_body_bounds:
  "- 600 \<le> x3 (wrench_body s) \<and> x3 (wrench_body s) \<le> 600
   \<and> - 600 \<le> y3 (wrench_body s) \<and> y3 (wrench_body s) \<le> 600
   \<and> - 600 \<le> z3 (wrench_body s) \<and> z3 (wrench_body s) \<le> 600"
  using clip_bounds [of "- 600" 600]
  by (simp add: wrench_body_def Let_def)

text \<open>
  Claim C7. Whatever the state of the controller and the message, each of the three
  components of a wrench that a tick publishes lies between -600 and 600.
\<close>

theorem published_wrench_saturated:
  assumes "snd (get_command pinv msg s) = Inr out"
  shows "- 600 \<le> ws_force_x (wrench_pub out) \<and> ws_force_x (wrench_pub out) \<le> 600
         \<and> - 600 \<le> ws_force_y (wrench_pub out) \<and> ws_force_y (wrench_pub out) \<le> 600
         \<and> - 600 \<le> ws_torque_z (wrench_pub out) \<and> ws_torque_z (wrench_pub out) \<le> 600"
  using assms get_command_cases [of pinv msg s]
        wrench_body_bounds [of "unpack msg (update_timestep msg s)"]
  by auto

theorem published_wrench_saturated_witness:
  "\<exists>out. snd (get_command pinv_full_row_rank odom_at_rest init) = Inr out
     \<and> - 600 \<le> ws_force_x (wrench_pub out) \<and> ws_force_x (wrench_pub out) \<le> 600
     \<and> - 600 \<le> ws_force_y (wrench_pub out) \<and> ws_force_y (wrench_pub out) \<le> 600
     \<and> - 600 \<le> ws_torque_z (wrench_pub out) \<and> ws_torque_z (wrench_pub out) \<le> 600"
proof -
  obtain out where out: "snd (get_command pinv_full_row_rank odom_at_rest init) = Inr out"
    using init_solve_nonempty get_command_publishes [of pinv_full_row_rank init odom_at_rest]
    by blast
  from published_wrench_saturated [OF out] out show ?thesis by blast
qed

section \<open>The time step\<close>





section \<open>Waypoints\<close>

text \<open>
  Claim C6. \<open>set_waypoint\<close> with the message \<open>(x, y, z)\<close> sets the desired position to
  \<open>(x, y)\<close> and the desired orientation to the yaw of \<open>z\<close> degrees, copies position,
  velocity, orientation and angular velocity of the vehicle into the reference, zeroes
  both reference accelerations, records the distance from the position of the vehicle
  to \<open>(x, y)\<close> as the traversal, and changes nothing else: the two estimates are as
  before, and putting the nine written fields back gives the state before the call.
\<close>

theorem set_waypoint_effect:
  "p_des (fst (set_waypoint (x, y, z) s)) = (x, y)
   \<and> q_des (fst (set_waypoint (x, y, z) s)) = quaternion_from_euler 0 0 (z * pi / 180)
   \<and> p_ref (fst (set_waypoint (x, y, z) s)) = position s
   \<and> v_ref (fst (set_waypoint (x, y, z) s)) = lin_vel s
   \<and> q_ref (fst (set_waypoint (x, y, z) s)) = orientation s
   \<and> w_ref (fst (set_waypoint (x, y, z) s)) = ang_vel s
   \<and> a_ref (fst (set_waypoint (x, y, z) s)) = (0, 0)
   \<and> aa_ref (fst (set_waypoint (x, y, z) s)) = 0
   \<and> traversal (fst (set_waypoint (x, y, z) s))
       = sqrt ((x - fst (position s)) * (x - fst (position s))
               + (y - snd (position s)) * (y - snd (position s)))
   \<and> dist_est (fst (set_waypoint (x, y, z) s)) = dist_est s
   \<and> drag_est (fst (set_waypoint (x, y, z) s)) = drag_est s
   \<and> (fst (set_waypoint (x, y, z) s))
        \<lparr>p_des := p_des s, q_des := q_des s, traversal := traversal s, p_ref := p_ref s,
         v_ref := v_ref s, q_ref := q_ref s, w_ref := w_ref s, a_ref := a_ref s,
         aa_ref := aa_ref s\<rparr> = s"
  by (cases "position s") (simp add: set_waypoint_def Let_def deg2rad_def)

theorem set_waypoint_effect_witness:
  "p_des (fst (set_waypoint (3, 4, 0) init)) = (3, 4)
   \<and> traversal (fst (set_waypoint (3, 4, 0) init)) = 5
   \<and> q_ref (fst (set_waypoint (3, 4, 0) init)) = (1, 0, 0, 0)
   \<and> dist_est (fst (set_waypoint (3, 4, 0) init)) = (0, 0, 0)"
proof -
  have "sqrt (25 :: real) = 5" using real_sqrt_abs [of 5] by simp
  then show ?thesis
    using set_waypoint_effect [of 3 4 0 init] by (simp add: init_def Let_def)
qed

section \<open>Yaw angles and quaternions\<close>

lemma atan2_range: "- pi < atan2 y x \<and> atan2 y x \<le> pi"
proof -
  have b: "- (pi / 2) < arctan (y / x)" "arctan (y / x) < pi / 2"
    by (rule arctan_lbound, rule arctan_ubound)
  have nn: "x < 0 \<Longrightarrow> 0 \<le> y \<Longrightarrow> arctan (y / x) \<le> 0"
    by (simp add: divide_nonneg_neg arctan_le_zero_iff)
  have np: "x < 0 \<Longrightarrow> y < 0 \<Longrightarrow> 0 < arctan (y / x)"
    by (simp add: divide_neg_neg)
  show ?thesis
    using b nn np pi_gt_zero by (auto simp: atan2_def)
qed

lemma atan2_sin_cos:
  assumes "- pi < t" and "t \<le> pi"
  shows "atan2 (sin t) (cos t) = t"
proof -
  consider (a) "- (pi / 2) < t" "t < pi / 2" | (b) "t = pi / 2" | (c) "t = - (pi / 2)"
    | (d) "pi / 2 < t" | (e) "t < - (pi / 2)"
    by linarith
  then show ?thesis
  proof cases
    case a
    then have "0 < cos t" by (rule cos_gt_zero_pi)
    moreover have "arctan (sin t / cos t) = t"
      using arctan_tan [OF a] by (simp add: tan_def)
    ultimately show ?thesis by (simp add: atan2_def)
  next
    case b
    show ?thesis unfolding b by (simp add: atan2_def)
  next
    case c
    show ?thesis unfolding c by (simp add: atan2_def)
  next
    case d
    have r: "- (pi / 2) < t - pi" "t - pi < pi / 2" using d assms by simp_all
    have cpos: "0 < cos (t - pi)" using r by (rule cos_gt_zero_pi)
    have c: "cos (t - pi) = - cos t" unfolding cos_diff by simp
    have s: "sin (t - pi) = - sin t" unfolding sin_diff by simp
    have "0 \<le> sin (pi - t)"
      using assms d by (intro sin_ge_zero) simp_all
    then have s0: "0 \<le> sin t" unfolding sin_diff by simp
    have cneg: "cos t < 0" using cpos c by simp
    have "tan (t - pi) = sin t / cos t"
      unfolding tan_def c s by simp
    then have "arctan (sin t / cos t) = arctan (tan (t - pi))" by simp
    also have "\<dots> = t - pi" using r by (rule arctan_tan)
    finally show ?thesis using cneg s0 by (simp add: atan2_def)
  next
    case e
    have r: "- (pi / 2) < t + pi" "t + pi < pi / 2" using e assms by simp_all
    have cpos: "0 < cos (t + pi)" using r by (rule cos_gt_zero_pi)
    have c: "cos (t + pi) = - cos t" unfolding cos_add by simp
    have s: "sin (t + pi) = - sin t" unfolding sin_add by simp
    have "0 < sin (t + pi)"
      using assms e by (intro sin_gt_zero) simp_all
    then have s0: "sin t < 0" unfolding s by simp
    have cneg: "cos t < 0" using cpos c by simp
    have "tan (t + pi) = sin t / cos t"
      unfolding tan_def c s by simp
    then have "arctan (sin t / cos t) = arctan (tan (t + pi))" by simp
    also have "\<dots> = t + pi" using r by (rule arctan_tan)
    finally show ?thesis using cneg s0 by (simp add: atan2_def)
  qed
qed

lemma quaternion_from_euler_yaw:
  "quaternion_from_euler 0 0 t = (0, 0, sin (t / 2), cos (t / 2))"
  by (simp add: quaternion_from_euler_def Let_def)

lemma quaternion_from_euler_unit: "quaternion_norm (quaternion_from_euler 0 0 t) = 1"
proof -
  have "sin (t / 2) * sin (t / 2) + cos (t / 2) * cos (t / 2) = 1"
    using sin_cos_squared_add [of "t / 2"] by (simp add: power2_eq_square)
  then show ?thesis by (simp add: quaternion_from_euler_yaw)
qed

lemma quaternion_matrix_yaw:
  "quaternion_matrix (0, 0, sin (t / 2), cos (t / 2)) =
     ((cos t, - sin t, 0), (sin t, cos t, 0), (0, 0, 1))"
proof -
  have one: "sin (t / 2) * sin (t / 2) + cos (t / 2) * cos (t / 2) = 1"
    using sin_cos_squared_add [of "t / 2"] by (simp add: power2_eq_square)
  have c: "cos t = 1 - 2 * (sin (t / 2) * sin (t / 2))"
    using cos_double [of "t / 2"] one by (simp add: power2_eq_square)
  have s: "sin t = 2 * (sin (t / 2) * cos (t / 2))"
    using sin_double [of "t / 2"] by simp
  have sq: "sqrt 2 * sqrt 2 = 2" by simp
  have z: "sin (t / 2) * sqrt 2 * (sin (t / 2) * sqrt 2) = 2 * (sin (t / 2) * sin (t / 2))"
    using sq by (simp add: algebra_simps)
  have zw: "sin (t / 2) * sqrt 2 * (cos (t / 2) * sqrt 2) = 2 * (sin (t / 2) * cos (t / 2))"
    using sq by (simp add: algebra_simps)
  show ?thesis
    using EPS_bounds by (simp add: one Let_def z zw c s)
qed

lemma yaw_of_quaternion_from_euler:
  assumes "- pi < t" and "t \<le> pi"
  shows "z3 (euler_from_quaternion (quaternion_from_euler 0 0 t)) = t"
proof -
  have "sqrt (cos t * cos t + sin t * sin t) = 1"
    using sin_cos_squared_add2 [of t] by (simp add: power2_eq_square)
  then show ?thesis
    unfolding euler_from_quaternion_def quaternion_from_euler_yaw quaternion_matrix_yaw
    using EPS_bounds atan2_sin_cos [OF assms]
    by (simp add: Let_def)
qed


section \<open>The reference orientation before the first waypoint\<close>

text \<open>
  Claim C10. In the state \<open>__init__\<close> leaves, the reference orientation is the zero
  quaternion, of norm 0. A tick runs in that state (it publishes, when the solve gives
  one entry per thruster) and after it the reference orientation has norm 1, as it has
  after every reference step, which writes a yaw quaternion. \<open>set_waypoint\<close> copies
  the orientation of the vehicle, which is \<open>(1, 0, 0, 0)\<close> before any message.
\<close>

theorem initial_reference_orientation:
  "q_ref init = (0, 0, 0, 0)
   \<and> quaternion_norm (q_ref init) = 0
   \<and> (pinv (B_3dof init) \<noteq> [] \<longrightarrow>
        (\<exists>out. snd (get_command pinv msg init) = Inr out)
        \<and> quaternion_norm (q_ref (fst (get_command pinv msg init))) = 1)
   \<and> (\<forall>s s'. increment_reference pinv s = Inr s' \<longrightarrow> quaternion_norm (q_ref s') = 1)
   \<and> q_ref (fst (set_waypoint p init)) = (1, 0, 0, 0)
   \<and> quaternion_norm (q_ref (fst (set_waypoint p init))) = 1
   \<and> (\<forall>s. q_ref (fst (set_waypoint p s)) = orientation s)"
proof (intro conjI impI allI)
  show "q_ref init = (0, 0, 0, 0)" by (simp add: init_def Let_def)
  show "quaternion_norm (q_ref init) = 0" by (simp add: init_def Let_def)
  show "q_ref (fst (set_waypoint p init)) = (1, 0, 0, 0)"
    by (simp add: set_waypoint_def init_def Let_def)
  show "quaternion_norm (q_ref (fst (set_waypoint p init))) = 1"
    by (simp add: set_waypoint_def init_def Let_def)
  show "q_ref (fst (set_waypoint p s)) = orientation s" for s
    by (simp add: set_waypoint_def Let_def)
  show "quaternion_norm (q_ref s') = 1" if "increment_reference pinv s = Inr s'" for s s'
    using that by (simp add: increment_reference_keeps quaternion_from_euler_unit)
next
  assume ne: "pinv (B_3dof init) \<noteq> []"
  then obtain out where out: "snd (get_command pinv msg init) = Inr out"
    using get_command_publishes [of pinv init msg] by blast
  then show "\<exists>out. snd (get_command pinv msg init) = Inr out" by blast
  from out obtain s3 where
    "increment_reference pinv (update_estimates (unpack msg (update_timestep msg init))) = Inr s3"
    "fst (get_command pinv msg init) = s3"
    using get_command_cases [of pinv msg init] by auto
  then show "quaternion_norm (q_ref (fst (get_command pinv msg init))) = 1"
    by (simp add: increment_reference_keeps quaternion_from_euler_unit)
qed

theorem initial_reference_orientation_witness:
  "pinv_full_row_rank (B_3dof init) \<noteq> []
   \<and> quaternion_norm (q_ref init) = 0
   \<and> (\<exists>out. snd (get_command pinv_full_row_rank odom_at_rest init) = Inr out)
   \<and> quaternion_norm (q_ref (fst (get_command pinv_full_row_rank odom_at_rest init))) = 1
   \<and> q_ref (fst (set_waypoint (3, 4, 0) init)) = (1, 0, 0, 0)"
  using initial_reference_orientation
          [where pinv = pinv_full_row_rank and msg = odom_at_rest and p = "(3, 4, 0)"]
        init_solve_nonempty
  by blast

section \<open>Allocation within the envelope\<close>

text \<open>
  The closed form \<open>pinv_full_row_rank\<close> solves \<open>B x = w\<close> exactly when the Gram matrix
  of the three rows is not singular, and then the rows are linearly independent.
\<close>

lemma dot_Nil [simp]: "dot [] ys = 0" "dot xs [] = 0"
  by (simp_all add: dot_def)

lemma dot_Cons [simp]: "dot (x # xs) (y # ys) = x * y + dot xs ys"
  by (simp add: dot_def)

lemma dot_lincomb:
  assumes "length r1 = length r0" and "length r2 = length r0"
  shows "dot rm (map (\<lambda>(a, b, c). a * u0 + b * u1 + c * u2) (zip r0 (zip r1 r2)))
           = u0 * dot rm r0 + u1 * dot rm r1 + u2 * dot rm r2"
  using assms
proof (induction rm arbitrary: r0 r1 r2)
  case Nil
  then show ?case by simp
next
  case (Cons x rm)
  show ?case
  proof (cases r0)
    case Nil
    then show ?thesis using Cons.prems by simp
  next
    case (Cons a r0')
    then obtain b r1' d r2' where "r1 = b # r1'" "r2 = d # r2'"
      using Cons.prems by (cases r1; cases r2) auto
    then show ?thesis
      using Cons.prems Cons.IH [of r1' r0' r2'] Cons by (simp add: algebra_simps)
  qed
qed

lemma inverse3_right:
  assumes "det3 M \<noteq> 0"
  shows "mat3_vec M (mat3_vec (inverse3 M) w) = w"
proof -
  obtain a b c d e f g h i where M: "M = ((a, b, c), (d, e, f), (g, h, i))"
    by (cases M rule: prod_cases3; cases "fst M" rule: prod_cases3; cases "fst (snd M)" rule: prod_cases3;
        cases "snd (snd M)" rule: prod_cases3) auto
  obtain w0 w1 w2 where w: "w = (w0, w1, w2)" by (cases w rule: prod_cases3) auto
  define D where "D = a * (e * i - f * h) - b * (d * i - f * g) + c * (d * h - e * g)"
  have D: "D \<noteq> 0" using assms by (simp add: M D_def)
  show ?thesis
    unfolding M w using D
    apply (simp add: Let_def D_def [symmetric])
    apply (simp add: add_divide_distrib [symmetric] diff_divide_distrib [symmetric] divide_simps)
    apply (simp add: D_def algebra_simps)
    done
qed


lemma inverse3_left:
  assumes "det3 M \<noteq> 0"
  shows "mat3_vec (inverse3 M) (mat3_vec M w) = w"
proof -
  obtain a b c d e f g h i where M: "M = ((a, b, c), (d, e, f), (g, h, i))"
    by (cases M rule: prod_cases3; cases "fst M" rule: prod_cases3; cases "fst (snd M)" rule: prod_cases3;
        cases "snd (snd M)" rule: prod_cases3) auto
  obtain w0 w1 w2 where w: "w = (w0, w1, w2)" by (cases w rule: prod_cases3) auto
  define D where "D = a * (e * i - f * h) - b * (d * i - f * g) + c * (d * h - e * g)"
  have D: "D \<noteq> 0" using assms by (simp add: M D_def)
  show ?thesis
    unfolding M w using D
    apply (simp add: Let_def D_def [symmetric])
    apply (simp add: add_divide_distrib [symmetric] diff_divide_distrib [symmetric] divide_simps)
    apply (simp add: D_def algebra_simps)
    done
qed

lemma pinv_full_row_rank_apply:
  "mat_vec (pinv_full_row_rank [r0, r1, r2]) [w0, w1, w2] =
     (case mat3_vec (inverse3 (gram r0 r1 r2)) (w0, w1, w2) of
        (u0, u1, u2) \<Rightarrow> map (\<lambda>(a, b, c). a * u0 + b * u1 + c * u2) (zip r0 (zip r1 r2)))"
proof -
  obtain g0 g1 g2 where G: "inverse3 (gram r0 r1 r2) = (g0, g1, g2)"
    by (cases "inverse3 (gram r0 r1 r2)" rule: prod_cases3) auto
  obtain a0 a1 a2 where g0: "g0 = (a0, a1, a2)" by (cases g0 rule: prod_cases3) auto
  obtain b0 b1 b2 where g1: "g1 = (b0, b1, b2)" by (cases g1 rule: prod_cases3) auto
  obtain c0 c1 c2 where g2: "g2 = (c0, c1, c2)" by (cases g2 rule: prod_cases3) auto
  show ?thesis
    by (auto simp: pinv_full_row_rank_def G g0 g1 g2 mat_vec_def algebra_simps)
qed

lemma pinv_full_row_rank_solves:
  assumes "length r1 = length r0" and "length r2 = length r0" and "det3 (gram r0 r1 r2) \<noteq> 0"
  shows "mat_vec [r0, r1, r2] (mat_vec (pinv_full_row_rank [r0, r1, r2]) [w0, w1, w2]) = [w0, w1, w2]"
proof -
  obtain u0 u1 u2 where u: "mat3_vec (inverse3 (gram r0 r1 r2)) (w0, w1, w2) = (u0, u1, u2)"
    by (cases "mat3_vec (inverse3 (gram r0 r1 r2)) (w0, w1, w2)" rule: prod_cases3) auto
  define xs where "xs = map (\<lambda>(a, b, c). a * u0 + b * u1 + c * u2) (zip r0 (zip r1 r2))"
  have G: "mat3_vec (gram r0 r1 r2) (u0, u1, u2) = (w0, w1, w2)"
    using inverse3_right [OF assms(3), of "(w0, w1, w2)"] by (simp add: u)
  have d: "dot r0 xs = u0 * dot r0 r0 + u1 * dot r0 r1 + u2 * dot r0 r2"
          "dot r1 xs = u0 * dot r1 r0 + u1 * dot r1 r1 + u2 * dot r1 r2"
          "dot r2 xs = u0 * dot r2 r0 + u1 * dot r2 r1 + u2 * dot r2 r2"
    unfolding xs_def by (rule dot_lincomb [OF assms(1,2)])+
  have "mat_vec (pinv_full_row_rank [r0, r1, r2]) [w0, w1, w2] = xs"
    unfolding pinv_full_row_rank_apply u xs_def by simp
  then show ?thesis
    using G by (simp add: mat_vec_def d gram_def algebra_simps)
qed


lemma transpose3_rows:
  assumes "length r1 = length r0" and "length r2 = length r0"
  shows "transpose [r0, r1, r2] = map (\<lambda>(a, b, c). [a, b, c]) (zip r0 (zip r1 r2))"
  using assms
proof (induction r0 arbitrary: r1 r2)
  case Nil
  then show ?case by simp
next
  case (Cons a r0)
  then obtain b r1' c r2' where "r1 = b # r1'" "r2 = c # r2'"
    by (cases r1; cases r2) auto
  then show ?case using Cons by simp
qed

lemma dot_zeros: "list_all (\<lambda>e. e = 0) ys \<Longrightarrow> dot xs ys = 0"
proof (induction xs arbitrary: ys)
  case Nil
  then show ?case by simp
next
  case (Cons x xs)
  then show ?case by (cases ys) simp_all
qed

lemma gram_nonsingular_full_row_rank:
  assumes "length r1 = length r0" and "length r2 = length r0" and "det3 (gram r0 r1 r2) \<noteq> 0"
  shows "full_row_rank [r0, r1, r2]"
  unfolding full_row_rank_def
proof (intro allI impI)
  fix c :: "real list"
  assume h: "length c = length [r0, r1, r2]
             \<and> list_all (\<lambda>e. e = 0) (mat_vec (transpose [r0, r1, r2]) c)"
  then obtain a b d where c: "c = [a, b, d]"
    by (cases c; simp; cases "tl c"; simp; cases "tl (tl c)"; auto)
  define xs where "xs = map (\<lambda>(x, y, z). x * a + y * b + z * d) (zip r0 (zip r1 r2))"
  have "mat_vec (transpose [r0, r1, r2]) c = xs"
    unfolding transpose3_rows [OF assms(1,2)] c xs_def by (auto simp: mat_vec_def)
  then have z: "list_all (\<lambda>e. e = 0) xs" using h by simp
  have d: "dot r0 xs = a * dot r0 r0 + b * dot r0 r1 + d * dot r0 r2"
          "dot r1 xs = a * dot r1 r0 + b * dot r1 r1 + d * dot r1 r2"
          "dot r2 xs = a * dot r2 r0 + b * dot r2 r1 + d * dot r2 r2"
    unfolding xs_def by (rule dot_lincomb [OF assms(1,2)])+
  have "mat3_vec (gram r0 r1 r2) (a, b, d) = (0, 0, 0)"
    using d dot_zeros [OF z] by (simp add: gram_def algebra_simps)
  then have "mat3_vec (inverse3 (gram r0 r1 r2)) (0, 0, 0) = (a, b, d)"
    using inverse3_left [OF assms(3), of "(a, b, d)"] by simp
  moreover have "mat3_vec M (0, 0, 0) = (0, 0, 0)" for M
    by (cases M rule: prod_cases3; cases "fst M" rule: prod_cases3;
        cases "fst (snd M)" rule: prod_cases3; cases "snd (snd M)" rule: prod_cases3) auto
  ultimately show "list_all (\<lambda>e. e = 0) c" by (simp add: c)
qed

lemma pinv_full_row_rank_least_squares:
  assumes "length r1 = length r0" and "length r2 = length r0" and "det3 (gram r0 r1 r2) \<noteq> 0"
  shows "least_squares [r0, r1, r2] [w0, w1, w2]
           (mat_vec (pinv_full_row_rank [r0, r1, r2]) [w0, w1, w2])"
  unfolding least_squares_def pinv_full_row_rank_solves [OF assms]
  by (simp add: mat_vec_def list_all_iff dot_zeros)


lemma list_all_zero_map2_minus:
  assumes "length xs = length ys" and "list_all (\<lambda>e. e = 0) (map2 (-) xs ys)"
  shows "xs = (ys :: real list)"
  using assms
  by (induction xs ys rule: list_induct2) simp_all

lemma thruster_mapper_unscaled:
  assumes "x \<noteq> []" and "\<forall>c \<in> set x. \<bar>c\<bar> \<le> tmax" and "x = mat_vec (pinv B) w"
  shows "thruster_mapper tmax pinv w B = Inr x"
proof -
  define m where "m = Max (set (map abs x))"
  have "m \<le> tmax"
    unfolding m_def using assms(1,2) by (subst Max_le_iff) auto
  then have "\<not> m > tmax" by simp
  moreover have "max_abs x = Inr m"
    unfolding m_def using assms(1) by (rule max_abs_Inr)
  ultimately show ?thesis
    unfolding thruster_mapper_def Let_def assms(3) [symmetric] by simp
qed

lemma thruster_mapper_exact:
  assumes "full_row_rank B" and "length w = length B"
    and "least_squares B w (mat_vec (pinv B) w)"
    and "mat_vec (pinv B) w \<noteq> []"
    and "\<forall>c \<in> set (mat_vec (pinv B) w). \<bar>c\<bar> \<le> tmax"
  shows "thruster_mapper tmax pinv w B = Inr (mat_vec (pinv B) w)
         \<and> mat_vec B (mat_vec (pinv B) w) = w"
proof
  show "thruster_mapper tmax pinv w B = Inr (mat_vec (pinv B) w)"
    using assms(4,5) by (intro thruster_mapper_unscaled) simp_all
next
  define r where "r = map2 (-) (mat_vec B (mat_vec (pinv B) w)) w"
  have len: "length (mat_vec B (mat_vec (pinv B) w)) = length w"
    using assms(2) by (simp add: mat_vec_def)
  have "length r = length B" using assms(2) by (simp add: r_def mat_vec_def)
  moreover have "list_all (\<lambda>e. e = 0) (mat_vec (transpose B) r)"
    using assms(3) by (simp add: least_squares_def r_def)
  ultimately have "list_all (\<lambda>e. e = 0) r"
    using assms(1) unfolding full_row_rank_def by blast
  then show "mat_vec B (mat_vec (pinv B) w) = w"
    unfolding r_def using len by (intro list_all_zero_map2_minus)
qed

text \<open>
  Claim C1. Let \<open>B\<close> have full row rank and let the wrench have one entry per row of \<open>B\<close>
  (three, in the controller). When the command \<open>pinv(B) w\<close> is a least-squares solution
  of \<open>B x = w\<close>, as the pseudoinverse gives it, and each of its entries has absolute value
  at most \<open>thrust_max\<close>, then \<open>thruster_mapper\<close> returns this command as it is, and \<open>B\<close>
  applied to the command is the requested wrench.
\<close>

theorem thruster_mapper_within_envelope:
  assumes "full_row_rank B" and "length w = length B"
    and "least_squares B w (mat_vec (pinv B) w)"
    and "mat_vec (pinv B) w \<noteq> []"
    and "\<forall>c \<in> set (mat_vec (pinv B) w). \<bar>c\<bar> \<le> tmax"
  shows "thruster_mapper tmax pinv w B = Inr (mat_vec (pinv B) w)
         \<and> mat_vec B (mat_vec (pinv B) w) = w"
  using assms by (rule thruster_mapper_exact)

text \<open>
  In the reference step the rows 0, 1 and 5 of \<^verbatim>\<open>wrench_saturated\<close> are \<open>B_3dof\<close> applied
  to the command, so within the envelope the virtual boat is accelerated by the wrench
  of the PD law itself, less the drag.
\<close>

lemma wrench_saturated_3dof:
  "[mat_vec (thruster_matrix (quaternion_matrix (q_ref s)) (thruster_directions s) (lever_arms s))
      cmd ! 0,
    mat_vec (thruster_matrix (quaternion_matrix (q_ref s)) (thruster_directions s) (lever_arms s))
      cmd ! 1,
    mat_vec (thruster_matrix (quaternion_matrix (q_ref s)) (thruster_directions s) (lever_arms s))
      cmd ! 5]
   = mat_vec (B_3dof s) cmd"
  by (cases "quaternion_matrix (q_ref s)" rule: prod_cases3) (simp add: B_3dof_def mat_vec_def Let_def)

lemma length_B_3dof: "length (B_3dof s) = 3"
  by (simp add: B_3dof_def Let_def)

lemma increment_reference_within_envelope:
  assumes "full_row_rank (B_3dof s)"
    and "least_squares (B_3dof s) [x3 (ref_wrench s), y3 (ref_wrench s), z3 (ref_wrench s)]
           (mat_vec (pinv (B_3dof s)) [x3 (ref_wrench s), y3 (ref_wrench s), z3 (ref_wrench s)])"
    and "mat_vec (pinv (B_3dof s)) [x3 (ref_wrench s), y3 (ref_wrench s), z3 (ref_wrench s)] \<noteq> []"
    and "\<forall>c \<in> set (mat_vec (pinv (B_3dof s))
                        [x3 (ref_wrench s), y3 (ref_wrench s), z3 (ref_wrench s)]).
           \<bar>c\<bar> \<le> thrust_max s"
  shows "\<exists>s'. increment_reference pinv s = Inr s'
           \<and> a_ref s' = ((x3 (ref_wrench s) - x3 (drag_ref s)) / mass_ref s,
                          (y3 (ref_wrench s) - y3 (drag_ref s)) / mass_ref s)
           \<and> aa_ref s' = (z3 (ref_wrench s) - z3 (drag_ref s)) / inertia_ref s"
proof -
  let ?w = "[x3 (ref_wrench s), y3 (ref_wrench s), z3 (ref_wrench s)]"
  let ?B = "thruster_matrix (quaternion_matrix (q_ref s)) (thruster_directions s) (lever_arms s)"
  define cmd where "cmd = mat_vec (pinv (B_3dof s)) ?w"
  have len: "length ?w = length (B_3dof s)" by (simp add: length_B_3dof)
  have tm: "thruster_mapper (thrust_max s) pinv ?w (B_3dof s) = Inr cmd"
    and ex: "mat_vec (B_3dof s) cmd = ?w"
    using thruster_mapper_exact [of "B_3dof s" ?w pinv "thrust_max s"] assms len
    by (simp_all add: cmd_def)
  have "[mat_vec ?B cmd ! 0, mat_vec ?B cmd ! 1, mat_vec ?B cmd ! 5] = ?w"
    unfolding wrench_saturated_3dof ex ..
  then have rows: "mat_vec ?B cmd ! 0 = x3 (ref_wrench s)"
    "mat_vec ?B cmd ! Suc 0 = y3 (ref_wrench s)" "mat_vec ?B cmd ! 5 = z3 (ref_wrench s)"
    by simp_all
  show ?thesis
    by (simp add: increment_reference_def Let_def tm rows)
qed

lemma B_3dof_init:
  "B_3dof init =
     [[7071 / 10000, 7071 / 10000, 7071 / 10000, 7071 / 10000],
      [7071 / 10000, - 7071 / 10000, 7071 / 10000, - 7071 / 10000],
      [- 205059 / 100000, 205059 / 100000, 77781 / 50000, - 77781 / 50000]]"
  using EPS_bounds
  by (simp add: B_3dof_def init_def Let_def init_directions_def init_positions_def identity3_def)

lemma gram_init:
  "gram [7071 / 10000, 7071 / 10000, 7071 / 10000, 7071 / 10000]
      [7071 / 10000, - 7071 / 10000, 7071 / 10000, - 7071 / 10000]
      [- 205059 / 100000, 205059 / 100000, 77781 / 50000, - 77781 / 50000]
   = ((49999041 / 25000000, 0, 0),
      (0, 49999041 / 25000000, - 349993287 / 500000000),
      (0, - 349993287 / 500000000, 2649949173 / 200000000))"
  by (simp add: gram_def)

lemma det_gram_init:
  "det3 (gram [7071 / 10000, 7071 / 10000, 7071 / 10000, 7071 / 10000]
           [7071 / 10000, - 7071 / 10000, 7071 / 10000, - 7071 / 10000]
           [- 205059 / 100000, 205059 / 100000, 77781 / 50000, - 77781 / 50000]) \<noteq> 0"
  unfolding gram_init by simp

lemma command_init:
  "mat_vec (pinv_full_row_rank (B_3dof init)) [100, 50, 20]
     = [5750000 / 120207, 2750000 / 120207, 7000000 / 120207, 500000 / 40069]"
  unfolding B_3dof_init pinv_full_row_rank_apply gram_init
  by (simp add: Let_def)

theorem thruster_mapper_within_envelope_witness:
  "thruster_mapper 220 pinv_full_row_rank [100, 50, 20] (B_3dof init)
     = Inr [5750000 / 120207, 2750000 / 120207, 7000000 / 120207, 500000 / 40069]
   \<and> mat_vec (B_3dof init) [5750000 / 120207, 2750000 / 120207, 7000000 / 120207, 500000 / 40069]
     = [100, 50, 20]"
proof -
  have frr: "full_row_rank (B_3dof init)"
    unfolding B_3dof_init by (rule gram_nonsingular_full_row_rank) (simp, simp, rule det_gram_init)
  have ls: "least_squares (B_3dof init) [100, 50, 20]
              (mat_vec (pinv_full_row_rank (B_3dof init)) [100, 50, 20])"
    unfolding B_3dof_init by (rule pinv_full_row_rank_least_squares) (simp, simp, rule det_gram_init)
  have len: "length [100, 50, 20 :: real] = length (B_3dof init)"
    by (simp add: B_3dof_init)
  show ?thesis
    using thruster_mapper_within_envelope [of "B_3dof init" "[100, 50, 20]" pinv_full_row_rank 220]
          frr ls len
    by (simp add: command_init)
qed

section \<open>Values that are not finite\<close>

















section \<open>The heading target of the reference model\<close>

lemma yaw_product:
  "quaternion_multiply (quaternion_from_euler 0 0 a) (quaternion_inverse (quaternion_from_euler 0 0 b))
     = quaternion_from_euler 0 0 (a - b)"
proof -
  have one: "sin (b / 2) * sin (b / 2) + cos (b / 2) * cos (b / 2) = 1"
    using sin_cos_squared_add [of "b / 2"] by (simp add: power2_eq_square)
  have h: "(a - b) / 2 = a / 2 - b / 2" by simp
  show ?thesis
    unfolding quaternion_from_euler_yaw h sin_diff cos_diff
    by (simp add: one Let_def algebra_simps)
qed

lemma yaw_of_quaternion_from_euler_wrapped:
  "z3 (euler_from_quaternion (quaternion_from_euler 0 0 t)) = atan2 (sin t) (cos t)"
proof -
  have "sqrt (cos t * cos t + sin t * sin t) = 1"
    using sin_cos_squared_add2 [of t] by (simp add: power2_eq_square)
  then show ?thesis
    unfolding euler_from_quaternion_def quaternion_from_euler_yaw quaternion_matrix_yaw
    using EPS_bounds by (simp add: Let_def)
qed

lemma yaw_error_of_yaw_quaternions:
  "z3 (euler_from_quaternion
         (quaternion_multiply (quaternion_from_euler 0 0 a)
            (quaternion_inverse (quaternion_from_euler 0 0 b))))
     = atan2 (sin (a - b)) (cos (a - b))"
  unfolding yaw_product by (rule yaw_of_quaternion_from_euler_wrapped)


lemma ref_wrench_explicit:
  assumes "dx = fst (p_des s) - fst (p_ref s)" and "dy = snd (p_des s) - snd (p_ref s)"
    and "target = (if heading_threshold s < sqrt (dx * dx + dy * dy)
                   then quaternion_from_euler 0 0 (atan2 dy dx) else q_des s)"
    and "y_err = z3 (euler_from_quaternion
                       (quaternion_multiply target (quaternion_inverse (q_ref s))))"
    and "R = quaternion_matrix (q_ref s)"
  shows "ref_wrench s =
           add3 (mat3_vec (mat3_mul (mat3_mul R (kp_body s)) (transpose3 R)) (dx, dy, y_err))
                (mat3_vec (mat3_mul (mat3_mul R (kd_body s)) (transpose3 R))
                          (- fst (v_ref s), - snd (v_ref s), - w_ref s))"
proof -
  have q: "ref_q_err s = quaternion_multiply target (quaternion_inverse (q_ref s))"
    unfolding assms(1,2,3)
    by (cases "p_des s"; cases "p_ref s") (simp add: ref_q_err_def Let_def not_le)
  show ?thesis
    unfolding ref_wrench_def Let_def q rotate_gain_def assms(4) [symmetric] assms(5) [symmetric]
    by (cases "p_des s"; cases "p_ref s") (simp add: assms(1,2))
qed

lemma increment_reference_explicit:
  assumes "dx = fst (p_des s) - fst (p_ref s)" and "dy = snd (p_des s) - snd (p_ref s)"
    and "target = (if heading_threshold s < sqrt (dx * dx + dy * dy)
                   then quaternion_from_euler 0 0 (atan2 dy dx) else q_des s)"
    and "y_err = z3 (euler_from_quaternion
                       (quaternion_multiply target (quaternion_inverse (q_ref s))))"
    and "R = quaternion_matrix (q_ref s)"
    and "W = add3 (mat3_vec (mat3_mul (mat3_mul R (kp_body s)) (transpose3 R)) (dx, dy, y_err))
                  (mat3_vec (mat3_mul (mat3_mul R (kd_body s)) (transpose3 R))
                            (- fst (v_ref s), - snd (v_ref s), - w_ref s))"
  shows "thruster_mapper (thrust_max s) pinv [x3 W, y3 W, z3 W] (B_3dof s) = Inr cmd \<Longrightarrow>
           \<exists>s'. increment_reference pinv s = Inr s'
             \<and> a_ref s' =
                 ((mat_vec (thruster_matrix R (thruster_directions s) (lever_arms s)) cmd ! 0
                     - x3 (drag_ref s)) / mass_ref s,
                  (mat_vec (thruster_matrix R (thruster_directions s) (lever_arms s)) cmd ! 1
                     - y3 (drag_ref s)) / mass_ref s)
             \<and> aa_ref s' =
                 (mat_vec (thruster_matrix R (thruster_directions s) (lever_arms s)) cmd ! 5
                    - z3 (drag_ref s)) / inertia_ref s"
    and "thruster_mapper (thrust_max s) pinv [x3 W, y3 W, z3 W] (B_3dof s) = Inl e \<Longrightarrow>
           increment_reference pinv s = Inl e"
proof -
  have w: "ref_wrench s = W"
    unfolding assms(6) by (rule ref_wrench_explicit [OF assms(1-5)])
  show "thruster_mapper (thrust_max s) pinv [x3 W, y3 W, z3 W] (B_3dof s) = Inr cmd \<Longrightarrow>
           \<exists>s'. increment_reference pinv s = Inr s'
             \<and> a_ref s' =
                 ((mat_vec (thruster_matrix R (thruster_directions s) (lever_arms s)) cmd ! 0
                     - x3 (drag_ref s)) / mass_ref s,
                  (mat_vec (thruster_matrix R (thruster_directions s) (lever_arms s)) cmd ! 1
                     - y3 (drag_ref s)) / mass_ref s)
             \<and> aa_ref s' =
                 (mat_vec (thruster_matrix R (thruster_directions s) (lever_arms s)) cmd ! 5
                    - z3 (drag_ref s)) / inertia_ref s"
    by (simp add: increment_reference_def Let_def w assms(5))
  show "thruster_mapper (thrust_max s) pinv [x3 W, y3 W, z3 W] (B_3dof s) = Inl e \<Longrightarrow>
           increment_reference pinv s = Inl e"
    by (simp add: increment_reference_def Let_def w)
qed

text \<open>
  Claim C5. In every reference step the heading target is chosen by the smart-yaw rule.
  With \<open>dx\<close> and \<open>dy\<close> the desired position less the reference position: when their
  distance exceeds \<open>heading_threshold\<close> the target is the yaw quaternion of the bearing
  \<open>atan2 dy dx\<close>, and the yaw angle of that quaternion is the bearing; when the distance is
  at most the threshold the target is the stored \<open>q_des\<close>. The heading error of the step
  is the yaw of the target relative to the reference orientation; for yaw quaternions it
  is the target heading less the reference heading, brought back into \<open>(-\<pi>, \<pi>]\<close>. The
  step hands the PD wrench of this error to the thruster mapper and accelerates the
  virtual boat by what the mapper returns.
\<close>

theorem smart_yaw_heading_target:
  assumes "dx = fst (p_des s) - fst (p_ref s)" and "dy = snd (p_des s) - snd (p_ref s)"
    and "far \<longleftrightarrow> heading_threshold s < sqrt (dx * dx + dy * dy)"
    and "target = (if far then quaternion_from_euler 0 0 (atan2 dy dx) else q_des s)"
    and "y_err = z3 (euler_from_quaternion
                       (quaternion_multiply target (quaternion_inverse (q_ref s))))"
    and "R = quaternion_matrix (q_ref s)"
    and "W = add3 (mat3_vec (mat3_mul (mat3_mul R (kp_body s)) (transpose3 R)) (dx, dy, y_err))
                  (mat3_vec (mat3_mul (mat3_mul R (kd_body s)) (transpose3 R))
                            (- fst (v_ref s), - snd (v_ref s), - w_ref s))"
    and "B = thruster_matrix R (thruster_directions s) (lever_arms s)"
  shows "(\<forall>cmd. thruster_mapper (thrust_max s) pinv [x3 W, y3 W, z3 W] (B_3dof s) = Inr cmd \<longrightarrow>
            (\<exists>s'. increment_reference pinv s = Inr s'
               \<and> a_ref s' = ((mat_vec B cmd ! 0 - x3 (drag_ref s)) / mass_ref s,
                              (mat_vec B cmd ! 1 - y3 (drag_ref s)) / mass_ref s)
               \<and> aa_ref s' = (mat_vec B cmd ! 5 - z3 (drag_ref s)) / inertia_ref s))
         \<and> (\<forall>e. thruster_mapper (thrust_max s) pinv [x3 W, y3 W, z3 W] (B_3dof s) = Inl e \<longrightarrow>
               increment_reference pinv s = Inl e)
         \<and> (far \<longrightarrow> z3 (euler_from_quaternion target) = atan2 dy dx)
         \<and> (\<not> far \<longrightarrow> target = q_des s)
         \<and> (\<forall>psi. far \<and> q_ref s = quaternion_from_euler 0 0 psi \<longrightarrow>
               y_err = atan2 (sin (atan2 dy dx - psi)) (cos (atan2 dy dx - psi)))
         \<and> (\<forall>psi theta. \<not> far \<and> q_ref s = quaternion_from_euler 0 0 psi
                           \<and> q_des s = quaternion_from_euler 0 0 theta \<longrightarrow>
               y_err = atan2 (sin (theta - psi)) (cos (theta - psi)))"
proof -
  have t: "target = (if heading_threshold s < sqrt (dx * dx + dy * dy)
                     then quaternion_from_euler 0 0 (atan2 dy dx) else q_des s)"
    using assms(3,4) by simp
  note step = increment_reference_explicit [OF assms(1,2) t assms(5,6,7), of pinv]
  show ?thesis
  proof (intro conjI allI impI)
    fix cmd
    assume "thruster_mapper (thrust_max s) pinv [x3 W, y3 W, z3 W] (B_3dof s) = Inr cmd"
    then show "\<exists>s'. increment_reference pinv s = Inr s'
               \<and> a_ref s' = ((mat_vec B cmd ! 0 - x3 (drag_ref s)) / mass_ref s,
                              (mat_vec B cmd ! 1 - y3 (drag_ref s)) / mass_ref s)
               \<and> aa_ref s' = (mat_vec B cmd ! 5 - z3 (drag_ref s)) / inertia_ref s"
      unfolding assms(8) by (rule step(1))
  next
    fix e
    assume "thruster_mapper (thrust_max s) pinv [x3 W, y3 W, z3 W] (B_3dof s) = Inl e"
    then show "increment_reference pinv s = Inl e" by (rule step(2))
  next
    assume far
    then show "z3 (euler_from_quaternion target) = atan2 dy dx"
      by (simp add: assms(4) yaw_of_quaternion_from_euler atan2_range)
  next
    assume "\<not> far"
    then show "target = q_des s" by (simp add: assms(4))
  next
    fix psi
    assume "far \<and> q_ref s = quaternion_from_euler 0 0 psi"
    then show "y_err = atan2 (sin (atan2 dy dx - psi)) (cos (atan2 dy dx - psi))"
      by (simp add: assms(4,5) yaw_error_of_yaw_quaternions)
  next
    fix psi theta
    assume "\<not> far \<and> q_ref s = quaternion_from_euler 0 0 psi
            \<and> q_des s = quaternion_from_euler 0 0 theta"
    then show "y_err = atan2 (sin (theta - psi)) (cos (theta - psi))"
      by (simp add: assms(4,5) yaw_error_of_yaw_quaternions)
  qed
qed


lemma sqrt_million: "sqrt (1000 * 1000 :: real) = 1000"
  using real_sqrt_abs2 [of 1000] by simp

lemma quaternion_matrix_identity: "quaternion_matrix (0, 0, 0, 1) = identity3"
  using EPS_bounds by (simp add: Let_def identity3_def)

lemma B_3dof_east: "B_3dof east_waypoint_state = B_3dof init"
  using EPS_bounds
  by (simp add: B_3dof_def east_waypoint_state_def init_def Let_def identity3_def)

lemma command_east:
  "mat_vec (pinv_full_row_rank (B_3dof init)) [600000, 0, 0]
     = [1500000000 / 7071, 1500000000 / 7071, 1500000000 / 7071, 1500000000 / 7071]"
  unfolding B_3dof_init pinv_full_row_rank_apply gram_init
  by (simp add: Let_def)

lemma thruster_mapper_east:
  "thruster_mapper 220 pinv_full_row_rank [600000, 0, 0] (B_3dof init) = Inr [220, 220, 220, 220]"
  unfolding thruster_mapper_def Let_def command_east
  by (simp add: max_abs_def)

theorem smart_yaw_heading_target_witness:
  "(\<exists>s'. increment_reference pinv_full_row_rank east_waypoint_state = Inr s'
          \<and> a_ref s' = (77781 / 37500, 0) \<and> aa_ref s' = 0)
   \<and> z3 (euler_from_quaternion
           (quaternion_multiply (quaternion_from_euler 0 0 (atan2 0 1000))
              (quaternion_inverse (q_ref east_waypoint_state)))) = 0
   \<and> z3 (euler_from_quaternion
           (quaternion_multiply (q_des east_waypoint_state)
              (quaternion_inverse (q_ref east_waypoint_state)))) = pi"
proof -
  let ?s = east_waypoint_state
  let ?n = "east_waypoint_state\<lparr>heading_threshold := 2000\<rparr>"
  let ?B = "thruster_matrix identity3 (thruster_directions ?s) (lever_arms ?s)"
  have f: "p_des ?s = (1000, 0)" "p_ref ?s = (0, 0)" "q_ref ?s = (0, 0, 0, 1)"
    "q_des ?s = quaternion_from_euler 0 0 pi" "heading_threshold ?s = 500" "v_ref ?s = (0, 0)"
    "w_ref ?s = 0" "kp_body ?s = diag3 600 700 700" "kd_body ?s = diag3 650 750 750"
    "thrust_max ?s = 220" "mass_ref ?s = 300" "inertia_ref ?s = 300"
    by (simp_all add: east_waypoint_state_def init_def Let_def deg2rad_def)
  have q0: "quaternion_from_euler 0 0 0 = (0, 0, 0, 1)"
    by (simp add: quaternion_from_euler_yaw)
  have a0: "atan2 0 1000 = 0" by (simp add: atan2_def)
  have y0: "z3 (euler_from_quaternion (quaternion_multiply (quaternion_from_euler 0 0 0)
              (quaternion_inverse (quaternion_from_euler 0 0 0)))) = 0"
    using yaw_error_of_yaw_quaternions [of 0 0] by (simp add: atan2_def)
  have h1: "1000 = fst (p_des ?s) - fst (p_ref ?s)" by (simp add: f)
  have h2: "0 = snd (p_des ?s) - snd (p_ref ?s)" by (simp add: f)
  have h3: "True \<longleftrightarrow> heading_threshold ?s < sqrt (1000 * 1000 + 0 * 0)"
    by (simp add: f sqrt_million)
  have h4: "quaternion_from_euler 0 0 0
              = (if True then quaternion_from_euler 0 0 (atan2 0 1000) else q_des ?s)"
    by (simp add: a0)
  have h5: "0 = z3 (euler_from_quaternion
                     (quaternion_multiply (quaternion_from_euler 0 0 0)
                        (quaternion_inverse (q_ref ?s))))"
    unfolding f q0 [symmetric] y0 ..
  have h6: "identity3 = quaternion_matrix (q_ref ?s)"
    unfolding f quaternion_matrix_identity ..
  have h7: "(600000, 0, 0)
              = add3 (mat3_vec (mat3_mul (mat3_mul identity3 (kp_body ?s)) (transpose3 identity3))
                        (1000, 0, 0))
                     (mat3_vec (mat3_mul (mat3_mul identity3 (kd_body ?s)) (transpose3 identity3))
                        (- fst (v_ref ?s), - snd (v_ref ?s), - w_ref ?s))"
    by (simp add: f identity3_def diag3_def)
  note far = smart_yaw_heading_target [OF h1 h2 h3 h4 h5 h6 h7 refl, of pinv_full_row_rank]
  have tm: "thruster_mapper (thrust_max ?s) pinv_full_row_rank
              [x3 (600000, 0, 0), y3 (600000, 0, 0), z3 (600000, 0, 0)] (B_3dof ?s)
            = Inr [220, 220, 220, 220]"
    by (simp add: f B_3dof_east thruster_mapper_east)
  have drag: "drag_ref ?s = (0, 0, 0)"
    unfolding drag_ref_def f quaternion_matrix_identity
    by (simp add: identity3_def Let_def east_waypoint_state_def init_def)
  have F: "mat_vec ?B [220, 220, 220, 220] ! 0 = 77781 / 125"
     "mat_vec ?B [220, 220, 220, 220] ! Suc 0 = 0"
     "mat_vec ?B [220, 220, 220, 220] ! 5 = 0"
    by (simp_all add: east_waypoint_state_def init_def Let_def identity3_def mat_vec_def dot_def
                      init_directions_def init_positions_def)
  have step: "\<exists>s'. increment_reference pinv_full_row_rank ?s = Inr s'
          \<and> a_ref s' = (77781 / 37500, 0) \<and> aa_ref s' = 0"
    using far [THEN conjunct1, rule_format, OF tm] by (simp add: F drag f)
  have n1: "1000 = fst (p_des ?n) - fst (p_ref ?n)" by (simp add: f)
  have n2: "0 = snd (p_des ?n) - snd (p_ref ?n)" by (simp add: f)
  have n3: "False \<longleftrightarrow> heading_threshold ?n < sqrt (1000 * 1000 + 0 * 0)"
    by (simp add: sqrt_million)
  have n4: "q_des ?s = (if False then quaternion_from_euler 0 0 (atan2 0 1000) else q_des ?n)"
    by simp
  have n5: "z3 (euler_from_quaternion
                  (quaternion_multiply (q_des ?s) (quaternion_inverse (q_ref ?s))))
            = z3 (euler_from_quaternion
                    (quaternion_multiply (q_des ?s) (quaternion_inverse (q_ref ?n))))"
    by simp
  note near = smart_yaw_heading_target [OF n1 n2 n3 n4 n5 refl refl refl, of pinv_full_row_rank]
  have qn: "\<not> False \<and> q_ref ?n = quaternion_from_euler 0 0 0
            \<and> q_des ?n = quaternion_from_euler 0 0 pi"
    by (simp add: f q0)
  have near': "z3 (euler_from_quaternion
           (quaternion_multiply (q_des ?s) (quaternion_inverse (q_ref ?s)))) = pi"
    using near [THEN conjunct2, THEN conjunct2, THEN conjunct2, THEN conjunct2, THEN conjunct2,
                rule_format, OF qn]
    by (simp add: atan2_def)
  have y0': "z3 (euler_from_quaternion
           (quaternion_multiply (quaternion_from_euler 0 0 (atan2 0 1000))
              (quaternion_inverse (q_ref ?s)))) = 0"
    unfolding a0 using h5 by simp
  show ?thesis
    using step y0' near' by blast
qed

section \<open>The mode flag and adaptation\<close>

lemma tick_wrench_body:
  assumes "R = quaternion_matrix (pose_orientation msg)"
    and "y = z3 (euler_from_quaternion (pose_orientation msg))"
    and "vx = x3 (mat3_vec R (twist_linear msg))"
    and "vy = y3 (mat3_vec R (twist_linear msg))"
    and "wz = z3 (mat3_vec R (twist_angular msg))"
    and "e = (fst (p_ref s) - x3 (pose_position msg), snd (p_ref s) - y3 (pose_position msg),
              z3 (euler_from_quaternion
                    (quaternion_multiply (q_ref s) (quaternion_inverse (pose_orientation msg)))))"
    and "ed = (fst (v_ref s) - vx, snd (v_ref s) - vy, w_ref s - wz)"
    and "PD = add3 (mat3_vec (mat3_mul (mat3_mul R (kp_body s)) (transpose3 R)) e)
                   (mat3_vec (mat3_mul (mat3_mul R (kd_body s)) (transpose3 R)) ed)"
    and "FF = (fst (a_ref s) * mass_ref s, snd (a_ref s) * mass_ref s, aa_ref s * inertia_ref s)"
    and "D = ((vx * (cos y) ^ 2 + vy * sin y * cos y,
               vx / 2 - (vx * cos (2 * y)) / 2 - (vy * sin (2 * y)) / 2,
               - wz * sin y, - wz * cos y, 0),
              (vy / 2 - (vy * cos (2 * y)) / 2 + (vx * sin (2 * y)) / 2,
               vy * (cos y) ^ 2 - vx * cos y * sin y,
               wz * cos y, - wz * sin y, 0),
              (0, 0, vy * cos y - vx * sin y, - vx * cos y - vy * sin y, wz))"
  shows "err (unpack msg (update_timestep msg s)) = e"
    and "errdot (unpack msg (update_timestep msg s)) = ed"
    and "drag_regressor (unpack msg (update_timestep msg s)) = D"
    and "wrench (unpack msg (update_timestep msg s))
           = (if only_PD s then PD
              else add3 (add3 (add3 PD FF) (dist_est s)) (mat35_vec D (drag_est s)))"
proof -
  let ?s1 = "unpack msg (update_timestep msg s)"
  have fields: "position ?s1 = (x3 (pose_position msg), y3 (pose_position msg))"
    "orientation ?s1 = pose_orientation msg" "lin_vel ?s1 = (vx, vy)" "ang_vel ?s1 = wz"
    "p_ref ?s1 = p_ref s" "q_ref ?s1 = q_ref s" "v_ref ?s1 = v_ref s" "w_ref ?s1 = w_ref s"
    "a_ref ?s1 = a_ref s" "aa_ref ?s1 = aa_ref s" "kp_body ?s1 = kp_body s"
    "kd_body ?s1 = kd_body s" "mass_ref ?s1 = mass_ref s" "inertia_ref ?s1 = inertia_ref s"
    "only_PD ?s1 = only_PD s" "dist_est ?s1 = dist_est s" "drag_est ?s1 = drag_est s"
    by (simp_all add: unpack_def update_timestep_def Let_def assms(1,3,4,5) split: option.splits)
  show e: "err ?s1 = e"
    unfolding err_def Let_def fields assms(6) by (cases "p_ref s") simp
  show ed: "errdot ?s1 = ed"
    unfolding errdot_def Let_def fields assms(7) by (cases "v_ref s") simp
  show D: "drag_regressor ?s1 = D"
    unfolding drag_regressor_def Let_def fields assms(2) [symmetric] assms(10) by simp
  show "wrench ?s1 = (if only_PD s then PD
              else add3 (add3 (add3 PD FF) (dist_est s)) (mat35_vec D (drag_est s)))"
    unfolding wrench_def Let_def fields e ed D rotate_gain_def assms(1) [symmetric] assms(8,9)
    by (cases "a_ref s") simp
qed


lemma get_command_estimates:
  "dist_est (fst (get_command pinv msg s))
     = dist_est (update_estimates (unpack msg (update_timestep msg s)))"
  "drag_est (fst (get_command pinv msg s))
     = drag_est (update_estimates (unpack msg (update_timestep msg s)))"
  using get_command_cases [of pinv msg s]
  by (auto simp: increment_reference_keeps)

text \<open>
  Claim C8 says that besides the mode flag there is a setting that stops adaptation, so
  that a tick leaves both estimates as they were. The controller has the flag \<open>only_PD\<close>
  and nothing else: the rates \<open>ki\<close> and \<open>kg\<close> are the constants of \<^verbatim>\<open>__init__\<close>, and with the
  flag set or clear the first tick changes the disturbance estimate.
\<close>

theorem adaptation_switch_counterexample:
  "only_PD init \<and> ki init = (1 / 10, 1 / 10, 1 / 10) \<and> kg init = (3, 3, 3, 3, 3)
   \<and> dist_est init = (0, 0, 0)
   \<and> dist_est (fst (get_command pinv_full_row_rank odom_at_rest init)) = (- 1 / 500, - 1 / 250, 0)
   \<and> dist_est (init\<lparr>only_PD := False\<rparr>) = (0, 0, 0)
   \<and> dist_est (fst (get_command pinv_full_row_rank odom_at_rest (init\<lparr>only_PD := False\<rparr>)))
       = (- 1 / 500, - 1 / 250, 0)"
  using EPS_bounds
  by (simp add: get_command_dist_est init_def odom_at_rest_def Let_def euler_from_quaternion_def
                identity3_def atan2_def)

text \<open>
  Claim C8, amended. The controller has one control over the use of the adaptive
  estimates, the flag \<open>only_PD\<close>. With the flag set the world frame wrench is the PD term
  alone, the rotated gains applied to the error and to its rate; with the flag clear the
  inertial feedforward, the disturbance estimate and the drag regressor applied to the
  drag estimate are added. The published wrench is this wrench in the body frame, with
  the second and third component negated, each clipped to 600. Adaptation has no switch:
  whatever the flag, every tick adds \<open>ki\<close> times the error times the time step to the
  disturbance estimate, and \<open>kg\<close> times the transposed regressor applied to the sum of the
  error and its rate, times the time step, to the drag estimate.
\<close>

theorem only_PD_flag_and_adaptation:
  assumes "R = quaternion_matrix (pose_orientation msg)"
    and "y = z3 (euler_from_quaternion (pose_orientation msg))"
    and "vx = x3 (mat3_vec R (twist_linear msg))"
    and "vy = y3 (mat3_vec R (twist_linear msg))"
    and "wz = z3 (mat3_vec R (twist_angular msg))"
    and "e = (fst (p_ref s) - x3 (pose_position msg), snd (p_ref s) - y3 (pose_position msg),
              z3 (euler_from_quaternion
                    (quaternion_multiply (q_ref s) (quaternion_inverse (pose_orientation msg)))))"
    and "ed = (fst (v_ref s) - vx, snd (v_ref s) - vy, w_ref s - wz)"
    and "PD = add3 (mat3_vec (mat3_mul (mat3_mul R (kp_body s)) (transpose3 R)) e)
                   (mat3_vec (mat3_mul (mat3_mul R (kd_body s)) (transpose3 R)) ed)"
    and "FF = (fst (a_ref s) * mass_ref s, snd (a_ref s) * mass_ref s, aa_ref s * inertia_ref s)"
    and "D = ((vx * (cos y) ^ 2 + vy * sin y * cos y,
               vx / 2 - (vx * cos (2 * y)) / 2 - (vy * sin (2 * y)) / 2,
               - wz * sin y, - wz * cos y, 0),
              (vy / 2 - (vy * cos (2 * y)) / 2 + (vx * sin (2 * y)) / 2,
               vy * (cos y) ^ 2 - vx * cos y * sin y,
               wz * cos y, - wz * sin y, 0),
              (0, 0, vy * cos y - vx * sin y, - vx * cos y - vy * sin y, wz))"
    and "W = (if only_PD s then PD
              else add3 (add3 (add3 PD FF) (dist_est s)) (mat35_vec D (drag_est s)))"
    and "b = mat3_vec (transpose3 R) W"
    and "dt = (case last_odom s of None \<Rightarrow> timestep s
               | Some prev \<Rightarrow> to_sec_diff (stamp msg) (stamp prev))"
  shows "(\<forall>out. snd (get_command pinv msg s) = Inr out \<longrightarrow>
            ws_force_x (wrench_pub out) = clip (x3 b) (- 600) 600
            \<and> ws_force_y (wrench_pub out) = clip (- y3 b) (- 600) 600
            \<and> ws_torque_z (wrench_pub out) = clip (- z3 b) (- 600) 600)
         \<and> dist_est (fst (get_command pinv msg s))
             = add3 (dist_est s) (scale3 (mul3 (ki s) e) dt)
         \<and> drag_est (fst (get_command pinv msg s))
             = add5 (drag_est s) (scale5 (mul5 (kg s) (mat35_T_vec D (add3 e ed))) dt)"
proof -
  let ?s1 = "unpack msg (update_timestep msg s)"
  note w = tick_wrench_body [OF assms(1-10)]
  have fields: "orientation ?s1 = pose_orientation msg" "timestep ?s1 = dt"
    "dist_est ?s1 = dist_est s" "drag_est ?s1 = drag_est s" "ki ?s1 = ki s" "kg ?s1 = kg s"
    by (simp_all add: unpack_def update_timestep_def Let_def assms(13) split: option.splits)
  have wb: "wrench_body ?s1
              = (clip (x3 b) (- 600) 600, clip (- y3 b) (- 600) 600, clip (- z3 b) (- 600) 600)"
    unfolding wrench_body_def Let_def fields w assms(1) [symmetric] assms(11) [symmetric]
              assms(12) [symmetric] ..
  show ?thesis
  proof (intro conjI allI impI)
    fix out
    assume "snd (get_command pinv msg s) = Inr out"
    then have "wrench_pub out = \<lparr>ws_frame_id = ''/base_link'',
              ws_force_x = x3 (wrench_body ?s1), ws_force_y = y3 (wrench_body ?s1),
              ws_torque_z = z3 (wrench_body ?s1)\<rparr>"
      using get_command_cases [of pinv msg s] by auto
    then show "ws_force_x (wrench_pub out) = clip (x3 b) (- 600) 600"
      and "ws_force_y (wrench_pub out) = clip (- y3 b) (- 600) 600"
      and "ws_torque_z (wrench_pub out) = clip (- z3 b) (- 600) 600"
      by (simp_all add: wb)
  next
    show "dist_est (fst (get_command pinv msg s))
             = add3 (dist_est s) (scale3 (mul3 (ki s) e) dt)"
      by (simp add: get_command_estimates update_estimates_def fields w)
  next
    show "drag_est (fst (get_command pinv msg s))
             = add5 (drag_est s) (scale5 (mul5 (kg s) (mat35_T_vec D (add3 e ed))) dt)"
      by (simp add: get_command_estimates update_estimates_def fields w)
  qed
qed


lemma B_3dof_flag:
  "B_3dof (init\<lparr>dist_est := d\<rparr>) = B_3dof init"
  "B_3dof (init\<lparr>only_PD := f, dist_est := d\<rparr>) = B_3dof init"
  by (simp_all add: B_3dof_def)

theorem only_PD_flag_and_adaptation_witness:
  "(\<exists>out. snd (get_command pinv_full_row_rank odom_at_rest (init\<lparr>dist_est := (100, 0, 0)\<rparr>))
            = Inr out
          \<and> ws_force_x (wrench_pub out) = - 600 \<and> ws_force_y (wrench_pub out) = 600
          \<and> ws_torque_z (wrench_pub out) = 0)
   \<and> (\<exists>out. snd (get_command pinv_full_row_rank odom_at_rest
                    (init\<lparr>only_PD := False, dist_est := (100, 0, 0)\<rparr>)) = Inr out
          \<and> ws_force_x (wrench_pub out) = - 500 \<and> ws_force_y (wrench_pub out) = 600
          \<and> ws_torque_z (wrench_pub out) = 0)
   \<and> dist_est (fst (get_command pinv_full_row_rank odom_at_rest (init\<lparr>dist_est := (100, 0, 0)\<rparr>)))
       = (100 - 1 / 500, - 1 / 250, 0)
   \<and> dist_est (fst (get_command pinv_full_row_rank odom_at_rest
                      (init\<lparr>only_PD := False, dist_est := (100, 0, 0)\<rparr>)))
       = (100 - 1 / 500, - 1 / 250, 0)"
proof -
  let ?a = "init\<lparr>dist_est := (100, 0, 0)\<rparr>"
  let ?b = "init\<lparr>only_PD := False, dist_est := (100, 0, 0)\<rparr>"
  note Ta = only_PD_flag_and_adaptation
    [OF refl refl refl refl refl refl refl refl refl refl refl refl refl,
     where msg = odom_at_rest and s = ?a and pinv = pinv_full_row_rank]
  note Tb = only_PD_flag_and_adaptation
    [OF refl refl refl refl refl refl refl refl refl refl refl refl refl,
     where msg = odom_at_rest and s = ?b and pinv = pinv_full_row_rank]
  obtain oa where oa: "snd (get_command pinv_full_row_rank odom_at_rest ?a) = Inr oa"
    using init_solve_nonempty get_command_publishes [of pinv_full_row_rank ?a odom_at_rest]
    by (auto simp: B_3dof_flag)
  obtain ob where ob: "snd (get_command pinv_full_row_rank odom_at_rest ?b) = Inr ob"
    using init_solve_nonempty get_command_publishes [of pinv_full_row_rank ?b odom_at_rest]
    by (auto simp: B_3dof_flag)
  have ev: "quaternion_matrix (0, 0, 0, 1) = identity3" "quaternion_matrix (0, 0, 0, 0) = identity3"
    using EPS_bounds by (simp_all add: Let_def identity3_def)
  have wa: "ws_force_x (wrench_pub oa) = - 600 \<and> ws_force_y (wrench_pub oa) = 600
          \<and> ws_torque_z (wrench_pub oa) = 0"
    using Ta [THEN conjunct1, rule_format, OF oa] EPS_bounds
    by (simp add: init_def odom_at_rest_def Let_def euler_from_quaternion_def identity3_def
                  atan2_def diag3_def clip_def)
  have wb: "ws_force_x (wrench_pub ob) = - 500 \<and> ws_force_y (wrench_pub ob) = 600
          \<and> ws_torque_z (wrench_pub ob) = 0"
    using Tb [THEN conjunct1, rule_format, OF ob] EPS_bounds
    by (simp add: init_def odom_at_rest_def Let_def euler_from_quaternion_def identity3_def
                  atan2_def diag3_def clip_def)
  have da: "dist_est (fst (get_command pinv_full_row_rank odom_at_rest ?a))
              = (100 - 1 / 500, - 1 / 250, 0)"
    using Ta [THEN conjunct2, THEN conjunct1] EPS_bounds
    by (simp add: init_def odom_at_rest_def Let_def euler_from_quaternion_def identity3_def
                  atan2_def)
  have db: "dist_est (fst (get_command pinv_full_row_rank odom_at_rest ?b))
              = (100 - 1 / 500, - 1 / 250, 0)"
    using Tb [THEN conjunct2, THEN conjunct1] EPS_bounds
    by (simp add: init_def odom_at_rest_def Let_def euler_from_quaternion_def identity3_def
                  atan2_def)
  show ?thesis
    using oa ob wa wb da db by blast
qed

end
